theory Spec2Isabelle
  imports Complex_Main
begin

section \<open>JavaScript values and the browser\<close>

text \<open>
  The widgets of this repository are JavaScript classes that run in a browser page.
  The embedding keeps three things apart:
  \<^item> an \<^emph>\<open>instance\<close> record for the fields of \<open>this\<close>;
  \<^item> a \<^emph>\<open>world\<close> record for everything of the page the code can change: the DOM
    (children, classes, attributes, inline styles, text), the registered event listeners,
    the pending animation-frame callbacks, the pending timeouts, the scroll triggers
    created in the GSAP library and the console;
  \<^item> an \<^emph>\<open>env\<close> record for what the browser answers when it is asked: selector
    queries, layout (\<open>offsetWidth\<close>, computed gap), media queries, \<open>window.scrollY\<close>.

  A JavaScript Number is modelled as a \<open>real\<close>: arithmetic is exact. Rounding of
  IEEE-754 doubles, NaN and the infinities are outside the model. Where the loop
  correction of the slider divides by a width that is zero, the model returns the
  error value \<open>NonFinite\<close> instead of a number.
\<close>

datatype error = TypeError | SyntaxError | NonFinite

type_synonym node = nat
type_synonym handle = nat

datatype target = Window | Document | Elem node

text \<open>
  A callback is named by the instance that owns it (its object identity, a \<open>nat\<close>) and
  by the method or arrow function it is. \<open>Foreign\<close> stands for any other code of the page.
\<close>

datatype slider_cb =
    UpdatePosition | ResizeTimer | HandleResize | OnPointerDown | OnPointerMove | OnPointerUp

datatype stalker_cb =
    Update | SetTextTimer string | ClearTextTimer | HoverTimer
  | HandlePointerMove | HandlePointerOver | HandlePointerOut | HandlePointerLeave
  | HandleWindowBlur

datatype callback =
    Slider nat slider_cb
  | Stalker nat stalker_cb
  | AccordionClick nat node node "node list"
  | ProgressEnter nat node
  | ProgressLeaveBack nat node
  | Foreign nat

datatype css = CssStr string | CssPx real | CssNum real | CssTranslate3d real real

text \<open>
  What \<open>ScrollTrigger.create\<close> of the GSAP library is given: the trigger element, the
  start and end positions, the \<open>scrub\<close> value, the element that the tween
  \<open>gsap.to(el, {scaleY: 1, transformOrigin: 'top', ease: 'none'})\<close> animates, and the two
  callbacks. GSAP itself is not code of this repository; the world keeps the list of the
  triggers that were created.
\<close>

record scroll_trigger =
  trigger_elem :: "node option"
  start_pos :: string
  end_pos :: string
  scrub :: "real option"
  tween :: "node option"
  onEnter :: "callback option"
  onLeaveBack :: "callback option"

record env =
  windowDefined :: bool
  documentDefined :: bool
  body :: "node option"
  reducedMotion :: bool
  pointerFine :: bool
  innerWidth :: real
  innerHeight :: real
  scrollY :: real
  docQuery :: "string \<Rightarrow> node list option"
  elemQuery :: "node \<Rightarrow> string \<Rightarrow> node list option"
  offsetWidth :: "node \<Rightarrow> real"
  gapStyle :: "node \<Rightarrow> string"
  columnGapStyle :: "node \<Rightarrow> string"
  parseFloat :: "string \<Rightarrow> real option"
  datasetMouseStalker :: "node \<Rightarrow> string"
  contains :: "node \<Rightarrow> node \<Rightarrow> bool"

record world =
  kids :: "node \<Rightarrow> node list"
  parent :: "node \<Rightarrow> node option"
  classes :: "node \<Rightarrow> string list"
  attrs :: "node \<Rightarrow> string \<Rightarrow> string option"
  styles :: "node \<Rightarrow> string \<Rightarrow> css option"
  textContent :: "node \<Rightarrow> string"
  nodeNext :: node
  listeners :: "(target \<times> string \<times> callback \<times> bool) list"
  rafQueue :: "(handle \<times> callback) list"
  rafNext :: handle
  timers :: "(handle \<times> real \<times> callback) list"
  timerNext :: handle
  clock :: real
  console :: "string list"
  calls :: "callback list"
  triggers :: "(handle \<times> scroll_trigger) list"
  triggerNext :: handle

text \<open>
  \<open>docQuery e sel\<close> is \<open>document.querySelectorAll(sel)\<close> and \<open>elemQuery e n sel\<close> is
  \<open>n.querySelectorAll(sel)\<close>, in document order; \<open>None\<close> is the \<open>SyntaxError\<close> of a
  selector that does not parse. \<open>querySelector\<close> is the first match or \<open>null\<close>.
\<close>

definition querySelector :: "node list option \<Rightarrow> error + node option" where
  "querySelector r =
     (case r of None \<Rightarrow> Inl SyntaxError
      | Some [] \<Rightarrow> Inr None
      | Some (n # _) \<Rightarrow> Inr (Some n))"

subsection \<open>Truthiness\<close>

definition truthy_num :: "real option \<Rightarrow> bool" where
  "truthy_num v = (case v of None \<Rightarrow> False | Some x \<Rightarrow> x \<noteq> 0)"

definition truthy_handle :: "handle option \<Rightarrow> bool" where
  "truthy_handle v = (case v of None \<Rightarrow> False | Some h \<Rightarrow> h \<noteq> 0)"

subsection \<open>The event loop: listeners, animation frames, timeouts\<close>

text \<open>
  \<open>addEventListener\<close> ignores a listener that is already registered with the same
  type, callback and capture flag; \<open>removeEventListener\<close> matches on the same three.
  The option \<open>{passive: true}\<close> has capture \<open>False\<close>.
\<close>

definition addEventListener :: "target \<Rightarrow> string \<Rightarrow> callback \<Rightarrow> bool \<Rightarrow> world \<Rightarrow> world" where
  "addEventListener tg ty cb cap w =
     (if (tg, ty, cb, cap) \<in> set (listeners w) then w
      else w\<lparr>listeners := listeners w @ [(tg, ty, cb, cap)]\<rparr>)"

definition removeEventListener :: "target \<Rightarrow> string \<Rightarrow> callback \<Rightarrow> bool \<Rightarrow> world \<Rightarrow> world" where
  "removeEventListener tg ty cb cap w =
     w\<lparr>listeners := removeAll (tg, ty, cb, cap) (listeners w)\<rparr>"

text \<open>Handles are positive: the browser never hands out \<open>0\<close>.\<close>

definition requestAnimationFrame :: "callback \<Rightarrow> world \<Rightarrow> handle \<times> world" where
  "requestAnimationFrame cb w =
     (let h = Suc (rafNext w)
      in (h, w\<lparr>rafQueue := rafQueue w @ [(h, cb)], rafNext := h\<rparr>))"

definition cancelAnimationFrame :: "handle \<Rightarrow> world \<Rightarrow> world" where
  "cancelAnimationFrame h w = w\<lparr>rafQueue := filter (\<lambda>p. fst p \<noteq> h) (rafQueue w)\<rparr>"

definition ScrollTrigger_create :: "scroll_trigger \<Rightarrow> world \<Rightarrow> handle \<times> world" where
  "ScrollTrigger_create t w =
     (let h = Suc (triggerNext w)
      in (h, w\<lparr>triggers := triggers w @ [(h, t)], triggerNext := h\<rparr>))"

definition setTimeout :: "callback \<Rightarrow> real \<Rightarrow> world \<Rightarrow> handle \<times> world" where
  "setTimeout cb delay w =
     (let h = Suc (timerNext w)
      in (h, w\<lparr>timers := timers w @ [(h, clock w + delay, cb)], timerNext := h\<rparr>))"

definition clearTimeout :: "handle \<Rightarrow> world \<Rightarrow> world" where
  "clearTimeout h w = w\<lparr>timers := filter (\<lambda>p. fst p \<noteq> h) (timers w)\<rparr>"

subsection \<open>DOM operations\<close>

definition createElement :: "world \<Rightarrow> node \<times> world" where
  "createElement w =
     (let n = nodeNext w
      in (n, w\<lparr>kids := (kids w)(n := []), parent := (parent w)(n := None),
                classes := (classes w)(n := []), attrs := (attrs w)(n := Map.empty),
                styles := (styles w)(n := Map.empty),
                textContent := (textContent w)(n := []), nodeNext := Suc n\<rparr>))"

definition detach :: "node \<Rightarrow> world \<Rightarrow> world" where
  "detach c w =
     (case parent w c of None \<Rightarrow> w
      | Some p \<Rightarrow> w\<lparr>kids := (kids w)(p := removeAll c (kids w p)),
                     parent := (parent w)(c := None)\<rparr>)"

definition appendChild :: "node \<Rightarrow> node \<Rightarrow> world \<Rightarrow> world" where
  "appendChild p c w =
     (let w1 = detach c w
      in w1\<lparr>kids := (kids w1)(p := kids w1 p @ [c]), parent := (parent w1)(c := Some p)\<rparr>)"

text \<open>
  \<open>cloneNode(true)\<close> on a slide: a fresh, detached node with the classes, attributes,
  inline styles and text of the original. The descendants of a slide are not tracked.
\<close>

definition cloneNode :: "node \<Rightarrow> world \<Rightarrow> node \<times> world" where
  "cloneNode src w =
     (let n = nodeNext w
      in (n, w\<lparr>kids := (kids w)(n := []), parent := (parent w)(n := None),
                classes := (classes w)(n := classes w src),
                attrs := (attrs w)(n := attrs w src),
                styles := (styles w)(n := styles w src),
                textContent := (textContent w)(n := textContent w src),
                nodeNext := Suc n\<rparr>))"

definition setStyle :: "node \<Rightarrow> string \<Rightarrow> css \<Rightarrow> world \<Rightarrow> world" where
  "setStyle n k v w = w\<lparr>styles := (styles w)(n := (styles w n)(k \<mapsto> v))\<rparr>"

definition setStyles :: "node \<Rightarrow> (string \<times> css) list \<Rightarrow> world \<Rightarrow> world" where
  "setStyles n kvs w = foldl (\<lambda>w' kv. setStyle n (fst kv) (snd kv) w') w kvs"

definition clearStyle :: "node \<Rightarrow> string \<Rightarrow> world \<Rightarrow> world" where
  "clearStyle n k w = w\<lparr>styles := (styles w)(n := (styles w n)(k := None))\<rparr>"

definition setAttribute :: "node \<Rightarrow> string \<Rightarrow> string \<Rightarrow> world \<Rightarrow> world" where
  "setAttribute n k v w = w\<lparr>attrs := (attrs w)(n := (attrs w n)(k \<mapsto> v))\<rparr>"

definition classList_contains :: "world \<Rightarrow> node \<Rightarrow> string \<Rightarrow> bool" where
  "classList_contains w n c = (c \<in> set (classes w n))"

definition classList_add :: "node \<Rightarrow> string \<Rightarrow> world \<Rightarrow> world" where
  "classList_add n c w =
     (if c \<in> set (classes w n) then w else w\<lparr>classes := (classes w)(n := classes w n @ [c])\<rparr>)"

definition classList_remove :: "node \<Rightarrow> string \<Rightarrow> world \<Rightarrow> world" where
  "classList_remove n c w = w\<lparr>classes := (classes w)(n := removeAll c (classes w n))\<rparr>"


text \<open>
  An event as the handlers read it: its type, the \<open>clientX\<close> of each touch point when
  the event has a \<open>touches\<close> list, the pointer coordinates, \<open>event.target.closest(sel)\<close>
  (\<open>None\<close> is the \<open>SyntaxError\<close> of a selector that does not parse) and
  \<open>event.relatedTarget\<close>.
\<close>

record event =
  etype :: string
  touches :: "real list option"
  clientX :: real
  clientY :: real
  closest :: "string \<Rightarrow> node option option"
  relatedTarget :: "node option"

section \<open>LoopSlider\<close>

subsection \<open>Options and instance\<close>

record slider_options =
  speed :: real
  gap :: "real option"
  reverse :: bool
  effect :: string
  scrollSpeed :: real
  draggable :: bool
  inertia :: real

text \<open>The options object the caller passes: every key may be left out.\<close>

record slider_options_in =
  speed_in :: "real option"
  gap_in :: "real option option"
  reverse_in :: "bool option"
  effect_in :: "string option"
  scrollSpeed_in :: "real option"
  draggable_in :: "bool option"
  inertia_in :: "real option"

definition pick :: "'a \<Rightarrow> 'a option \<Rightarrow> 'a" where
  "pick d v = (case v of None \<Rightarrow> d | Some x \<Rightarrow> x)"

definition mergeSliderOptions :: "slider_options_in \<Rightarrow> slider_options" where
  "mergeSliderOptions i =
     \<lparr>speed = pick 50 (speed_in i),
      gap = pick None (gap_in i),
      reverse = pick False (reverse_in i),
      effect = pick ''draggable'' (effect_in i),
      scrollSpeed = pick (1 / 2) (scrollSpeed_in i),
      draggable = pick True (draggable_in i),
      inertia = pick (95 / 100) (inertia_in i)\<rparr>"

text \<open>
  The fields of \<open>this\<close>, and the two variables \<open>lastFrameTime\<close> and \<open>direction\<close> that the
  frame callback closes over. \<open>self\<close> is the identity of the instance. The constructor
  does not assign \<open>slideWidth\<close>, \<open>totalWidth\<close>, \<open>startDragX\<close> and \<open>direction\<close>; \<open>init\<close> and
  \<open>onPointerDown\<close> assign them before the code reads them, and the model starts them at 0.
\<close>

record slider =
  self :: nat
  container :: node
  slides :: "node list"
  options :: slider_options
  baseX :: real
  dragX :: real
  isDragging :: bool
  startX :: real
  currentX :: real
  animation :: "handle option"
  wrapper :: "node option"
  resizeTimeout :: "handle option"
  smoothedScrollY :: real
  lastSmoothedScrollY :: real
  velocity :: real
  lastDragX :: real
  lastTime :: real
  startDragX :: real
  slideWidth :: real
  totalWidth :: real
  lastFrameTime :: "real option"
  direction :: real

subsection \<open>Dimensions\<close>

definition getGap :: "env \<Rightarrow> slider \<Rightarrow> error + real" where
  "getGap e s =
     (case gap (options s) of
        Some g \<Rightarrow> Inr g
      | None \<Rightarrow>
          (case wrapper s of
             None \<Rightarrow> Inl TypeError
           | Some wr \<Rightarrow>
               (let gapStr = (if gapStyle e wr \<noteq> [] then gapStyle e wr
                              else if columnGapStyle e wr \<noteq> [] then columnGapStyle e wr
                              else ''0px'')
                in Inr (case parseFloat e gapStr of None \<Rightarrow> 0 | Some v \<Rightarrow> v))))"

definition updateDimensions :: "env \<Rightarrow> slider \<Rightarrow> error + slider" where
  "updateDimensions e s =
     (case getGap e s of
        Inl err \<Rightarrow> Inl err
      | Inr g \<Rightarrow>
          (case slides s of
             [] \<Rightarrow> Inl TypeError
           | s0 # _ \<Rightarrow>
               (let sw = offsetWidth e s0 + g;
                    tw = sw * real (length (slides s));
                    s1 = s\<lparr>slideWidth := sw, totalWidth := tw\<rparr>
                in Inr (if totalWidth s1 > 0
                        then (let progress = baseX s1 / totalWidth s1
                              in s1\<lparr>baseX := progress * totalWidth s1\<rparr>)
                        else s1))))"

subsection \<open>The animation frame\<close>

text \<open>
  \<open>Math.pow\<close> on exact reals. It agrees with JavaScript for a positive base, and for
  base 0 with a non-negative exponent; \<open>inertia\<close> is documented to lie between 0 and 1.
\<close>

definition js_pow :: "real \<Rightarrow> real \<Rightarrow> real" where
  "js_pow x y = (if y = 0 then 1 else x powr y)"

text \<open>
  The number that \<open>toFixed(2)\<close> prints: the nearest multiple of 1/100, a tie going away
  from zero.
\<close>

definition toFixed2 :: "real \<Rightarrow> real" where
  "toFixed2 x =
     (if x < 0 then - (of_int \<lfloor>(- x) * 100 + 1 / 2\<rfloor> / 100)
      else of_int \<lfloor>x * 100 + 1 / 2\<rfloor> / 100)"

definition scrollStep :: "env \<Rightarrow> slider \<Rightarrow> slider \<times> real" where
  "scrollStep e s =
     (if effect (options s) = ''scroll''
      then (let currentScrollY = scrollY e;
                smoothed = smoothedScrollY s + (currentScrollY - smoothedScrollY s) * (1 / 10);
                diff = smoothed - lastSmoothedScrollY s
            in (s\<lparr>smoothedScrollY := smoothed, lastSmoothedScrollY := smoothed\<rparr>,
                diff * scrollSpeed (options s)))
      else (s, 0))"

definition autoStep :: "real \<Rightarrow> real \<Rightarrow> slider \<Rightarrow> slider" where
  "autoStep dt scrollMove s =
     (if \<not> isDragging s
      then (let move0 = speed (options s) * dt;
                move = (if effect (options s) = ''scroll'' then move0 + scrollMove else move0)
            in s\<lparr>baseX := baseX s - move * direction s\<rparr>)
      else s)"

definition inertiaStep :: "real \<Rightarrow> slider \<Rightarrow> slider" where
  "inertiaStep dt s =
     (if \<not> isDragging s \<and> \<bar>velocity s\<bar> > 10
      then (let s1 = s\<lparr>dragX := dragX s + velocity s * dt\<rparr>;
                friction = inertia (options s1);
                timeAdjustedFriction = js_pow friction (dt * 60)
            in s1\<lparr>velocity := velocity s1 * timeAdjustedFriction\<rparr>)
      else if \<not> isDragging s \<and> dragX s \<noteq> 0
      then s\<lparr>baseX := baseX s + dragX s, dragX := 0, velocity := 0\<rparr>
      else s)"

text \<open>
  The loop-range correction. \<open>Math.ceil\<close> is \<open>ceiling\<close>. For \<open>totalWidth = 0\<close> the
  quotient is infinite in JavaScript and \<open>baseX\<close> becomes NaN: the model stops with
  \<open>NonFinite\<close>.
\<close>

definition loopCorrect :: "slider \<Rightarrow> error + slider" where
  "loopCorrect s =
     (let currentX = baseX s + dragX s;
          loopMin = - totalWidth s * 2;
          loopMax = - totalWidth s
      in if currentX < loopMin
         then (if totalWidth s = 0 then Inl NonFinite
               else (let diff = loopMin - currentX;
                         count = of_int \<lceil>diff / totalWidth s\<rceil>
                     in Inr (s\<lparr>baseX := baseX s + totalWidth s * count\<rparr>)))
         else if currentX > loopMax
         then (if totalWidth s = 0 then Inl NonFinite
               else (let diff = currentX - loopMax;
                         count = of_int \<lceil>diff / totalWidth s\<rceil>
                     in Inr (s\<lparr>baseX := baseX s - totalWidth s * count\<rparr>)))
         else Inr s)"

definition render :: "slider \<times> world \<Rightarrow> error + slider \<times> world" where
  "render sw =
     (let s = fst sw; w = snd sw; finalX = baseX s + dragX s
      in case wrapper s of
           None \<Rightarrow> Inl TypeError
         | Some wr \<Rightarrow>
             (let w1 = setStyle wr ''transform'' (CssTranslate3d (toFixed2 finalX) 0) w;
                  r = requestAnimationFrame (Slider (self s) UpdatePosition) w1
              in Inr (s\<lparr>animation := Some (fst r)\<rparr>, snd r)))"

text \<open>
  \<open>updatePosition\<close>, the callback of \<open>requestAnimationFrame\<close>. \<open>performance.now()\<close> is
  the clock of the world. \<open>frameTimestamp\<close> is the timestamp after the first line;
  \<open>moveStep\<close> is the part of a frame between the first-frame test and the loop-range
  correction: it leaves the slider at the position \<open>currentX\<close>.
\<close>

definition frameTimestamp :: "real \<Rightarrow> world \<Rightarrow> real" where
  "frameTimestamp ts w = (if ts = 0 then clock w else ts)"

definition moveStep :: "env \<Rightarrow> real \<Rightarrow> slider \<Rightarrow> slider" where
  "moveStep e timestamp s =
     (let deltaTime = (timestamp - the (lastFrameTime s)) / 1000;
          s1 = s\<lparr>lastFrameTime := Some timestamp\<rparr>;
          dt = (if deltaTime > 1 / 10 then 1 / 10 else deltaTime);
          sc = scrollStep e s1;
          s2 = autoStep dt (snd sc) (fst sc)
      in inertiaStep dt s2)"

definition updatePosition :: "env \<Rightarrow> real \<Rightarrow> slider \<times> world \<Rightarrow> error + slider \<times> world" where
  "updatePosition e ts sw =
     (let s = fst sw; w = snd sw;
          timestamp = frameTimestamp ts w
      in if \<not> truthy_num (lastFrameTime s)
         then (let r = requestAnimationFrame (Slider (self s) UpdatePosition) w
               in Inr (s\<lparr>lastFrameTime := Some timestamp, animation := Some (fst r)\<rparr>, snd r))
         else (case loopCorrect (moveStep e timestamp s) of
                 Inl err \<Rightarrow> Inl err
               | Inr s4 \<Rightarrow> render (s4, w)))"

subsection \<open>Construction\<close>

text \<open>The first argument of the constructor: a selector string, or an element (or \<open>null\<close>).\<close>

datatype selector_arg = BySelector string | ByElement "node option"

text \<open>
  What \<open>new LoopSlider(...)\<close> yields: the constructor returns early without a container
  (\<open>NoContainer\<close>) and without child slides (\<open>NoSlides\<close>, only \<open>container\<close> and \<open>slides\<close>
  are assigned); otherwise the instance is fully initialised.
\<close>

datatype loop_slider = NoContainer | NoSlides node | Live slider

definition setClassName :: "node \<Rightarrow> string \<Rightarrow> world \<Rightarrow> world" where
  "setClassName n c w = w\<lparr>classes := (classes w)(n := [c])\<rparr>"

fun cloneAll :: "node list \<Rightarrow> world \<Rightarrow> node list \<times> world" where
  "cloneAll [] w = ([], w)"
| "cloneAll (x # xs) w =
     (let r = cloneNode x w; rs = cloneAll xs (snd r)
      in (fst r # fst rs, snd rs))"

definition cloneSet :: "node \<Rightarrow> node list \<Rightarrow> world \<Rightarrow> world" where
  "cloneSet wr sl w =
     (let r = cloneAll sl w
      in foldl (\<lambda>w' clone. appendChild wr clone w') (snd r) (fst r))"

definition wrapperStyle :: "slider_options \<Rightarrow> (string \<times> css) list" where
  "wrapperStyle opts =
     [(''position'', CssStr ''absolute''), (''left'', CssStr ''0''), (''top'', CssStr ''0''),
      (''display'', CssStr ''flex''), (''willChange'', CssStr ''transform''),
      (''backfaceVisibility'', CssStr ''hidden''),
      (''WebkitBackfaceVisibility'', CssStr ''hidden''),
      (''perspective'', CssStr ''1000px''), (''WebkitPerspective'', CssStr ''1000px''),
      (''transformStyle'', CssStr ''preserve-3d''),
      (''WebkitTransformStyle'', CssStr ''preserve-3d'')]
     @ (case gap opts of Some g \<Rightarrow> [(''gap'', CssPx g)] | None \<Rightarrow> [])"

definition slideStyle :: "(string \<times> css) list" where
  "slideStyle =
     [(''flexShrink'', CssStr ''0''), (''backfaceVisibility'', CssStr ''hidden''),
      (''WebkitBackfaceVisibility'', CssStr ''hidden''),
      (''transform'', CssStr ''translateZ(0)'')]"

definition setupSlider :: "env \<Rightarrow> slider \<times> world \<Rightarrow> error + slider \<times> world" where
  "setupSlider e sw =
     (let s = fst sw; w = snd sw;
          r = createElement w;
          wr = fst r;
          s1 = s\<lparr>wrapper := Some wr\<rparr>;
          w1 = setClassName wr ''c-loop-slider__wrapper'' (snd r);
          w2 = foldl (\<lambda>w' slide. appendChild wr slide w') w1 (slides s1);
          w3 = ((cloneSet wr (slides s1)) ^^ 3) w2;
          w4 = appendChild (container s1) wr w3;
          w5 = setStyles wr (wrapperStyle (options s1)) w4;
          allSlides = kids w5 wr;
          w6 = foldl (\<lambda>w' slide. setStyles slide slideStyle w') w5 allSlides
      in case updateDimensions e s1 of
           Inl err \<Rightarrow> Inl err
         | Inr s2 \<Rightarrow> Inr (s2, w6))"

definition startAutoScroll :: "slider \<times> world \<Rightarrow> slider \<times> world" where
  "startAutoScroll sw =
     (let s = fst sw; w = snd sw;
          s1 = s\<lparr>lastFrameTime := None,
                 direction := (if reverse (options s) then - 1 else 1)\<rparr>;
          s2 = s1\<lparr>baseX := - totalWidth s1\<rparr>;
          r = requestAnimationFrame (Slider (self s2) UpdatePosition) (snd sw)
      in (s2\<lparr>animation := Some (fst r)\<rparr>, snd r))"

definition setupDraggable :: "slider \<times> world \<Rightarrow> slider \<times> world" where
  "setupDraggable sw =
     (let s = fst sw; w = snd sw; me = self s
      in if \<not> draggable (options s)
         then (s, clearStyle (container s) ''cursor'' w)
         else (s,
           addEventListener Document ''touchend'' (Slider me OnPointerUp) False
            (addEventListener Document ''mouseup'' (Slider me OnPointerUp) False
             (addEventListener Document ''touchmove'' (Slider me OnPointerMove) False
              (addEventListener Document ''mousemove'' (Slider me OnPointerMove) False
               (addEventListener (Elem (container s)) ''touchstart'' (Slider me OnPointerDown) False
                (addEventListener (Elem (container s)) ''mousedown'' (Slider me OnPointerDown) False
                 (setStyle (container s) ''cursor'' (CssStr ''grab'') w))))))))"

definition setupResize :: "slider \<times> world \<Rightarrow> slider \<times> world" where
  "setupResize sw =
     (fst sw, addEventListener Window ''resize'' (Slider (self (fst sw)) HandleResize) False (snd sw))"

definition LoopSlider_init :: "env \<Rightarrow> slider \<times> world \<Rightarrow> error + slider \<times> world" where
  "LoopSlider_init e sw =
     (case setupSlider e sw of
        Inl err \<Rightarrow> Inl err
      | Inr sw1 \<Rightarrow> Inr (setupResize (setupDraggable (startAutoScroll sw1))))"

text \<open>The field assignments of the constructor, before \<open>init\<close>.\<close>

definition initialSlider ::
  "env \<Rightarrow> nat \<Rightarrow> node \<Rightarrow> node list \<Rightarrow> slider_options_in \<Rightarrow> slider" where
  "initialSlider e me c sl opts =
     (let merged = mergeSliderOptions opts;
          o1 = (if effect merged = ''scroll'' then merged\<lparr>draggable := False\<rparr> else merged)
      in \<lparr>self = me, container = c, slides = sl, options = o1,
           baseX = 0, dragX = 0, isDragging = False, startX = 0,
           currentX = 0, animation = None, wrapper = None,
           resizeTimeout = None, smoothedScrollY = scrollY e,
           lastSmoothedScrollY = scrollY e, velocity = 0, lastDragX = 0,
           lastTime = 0, startDragX = 0, slideWidth = 0, totalWidth = 0,
           lastFrameTime = None, direction = 0\<rparr>)"

definition LoopSlider_new ::
  "env \<Rightarrow> nat \<Rightarrow> selector_arg \<Rightarrow> slider_options_in \<Rightarrow> world \<Rightarrow> error + loop_slider \<times> world" where
  "LoopSlider_new e me selector opts w =
     (case (case selector of
              BySelector str \<Rightarrow> querySelector (docQuery e str)
            | ByElement el \<Rightarrow> Inr el) of
        Inl err \<Rightarrow> Inl err
      | Inr None \<Rightarrow> Inr (NoContainer, w)
      | Inr (Some c) \<Rightarrow>
          (let sl = kids w c
           in if length sl = 0 then Inr (NoSlides c, w)
              else (case LoopSlider_init e (initialSlider e me c sl opts, w) of
                      Inl err \<Rightarrow> Inl err
                    | Inr sw \<Rightarrow> Inr (Live (fst sw), snd sw))))"

subsection \<open>Resize\<close>

definition handleResize :: "slider \<times> world \<Rightarrow> slider \<times> world" where
  "handleResize sw =
     (let s = fst sw; w = snd sw;
          w1 = (if truthy_handle (resizeTimeout s)
                then clearTimeout (the (resizeTimeout s)) w else w);
          r = setTimeout (Slider (self s) ResizeTimer) 150 w1
      in (s\<lparr>resizeTimeout := Some (fst r)\<rparr>, snd r))"

text \<open>The arrow function handed to \<open>setTimeout\<close>: \<open>() => { this.updateDimensions(); }\<close>.\<close>

definition resizeTimer :: "env \<Rightarrow> slider \<times> world \<Rightarrow> error + slider \<times> world" where
  "resizeTimer e sw =
     (case updateDimensions e (fst sw) of
        Inl err \<Rightarrow> Inl err
      | Inr s1 \<Rightarrow> Inr (s1, snd sw))"

subsection \<open>Dragging\<close>

text \<open>\<open>e.touches ? e.touches[0].clientX : e.clientX\<close>\<close>

definition pointerX :: "event \<Rightarrow> error + real" where
  "pointerX ev =
     (case touches ev of
        None \<Rightarrow> Inr (clientX ev)
      | Some [] \<Rightarrow> Inl TypeError
      | Some (x # _) \<Rightarrow> Inr x)"

definition onPointerDown :: "event \<Rightarrow> slider \<times> world \<Rightarrow> error + slider \<times> world" where
  "onPointerDown ev sw =
     (let s = fst sw; w = snd sw
      in case pointerX ev of
           Inl err \<Rightarrow> Inl err
         | Inr x \<Rightarrow>
             Inr (s\<lparr>isDragging := True, startX := x, startDragX := dragX s, velocity := 0,
                    lastDragX := dragX s, lastTime := clock w\<rparr>,
                  setStyle (container s) ''cursor'' (CssStr ''grabbing'') w))"

definition onPointerMove :: "event \<Rightarrow> slider \<times> world \<Rightarrow> error + slider \<times> world" where
  "onPointerMove ev sw =
     (let s = fst sw; w = snd sw
      in if \<not> isDragging s then Inr (s, w)
         else (case pointerX ev of
                 Inl err \<Rightarrow> Inl err
               | Inr x \<Rightarrow>
                   (let s1 = s\<lparr>currentX := x\<rparr>;
                        diff = currentX s1 - startX s1;
                        s2 = s1\<lparr>dragX := startDragX s1 + diff\<rparr>;
                        now = clock w;
                        deltaTime = now - lastTime s2;
                        s3 = (if deltaTime > 0
                              then (let v = (dragX s2 - lastDragX s2) / deltaTime * 1000
                                    in s2\<lparr>velocity := velocity s2 * (2 / 10) + v * (8 / 10)\<rparr>)
                              else s2)
                    in Inr (s3\<lparr>lastDragX := dragX s3, lastTime := now\<rparr>, w))))"

definition onPointerUp :: "slider \<times> world \<Rightarrow> slider \<times> world" where
  "onPointerUp sw =
     (let s = fst sw; w = snd sw
      in if \<not> isDragging s then (s, w)
         else (s\<lparr>isDragging := False\<rparr>, setStyle (container s) ''cursor'' (CssStr ''grab'') w))"

subsection \<open>Destruction\<close>

definition destroy_live :: "slider \<times> world \<Rightarrow> world" where
  "destroy_live sw =
     (let s = fst sw; w = snd sw; me = self s;
          w1 = (if truthy_handle (animation s)
                then cancelAnimationFrame (the (animation s)) w else w);
          w2 = (if truthy_handle (resizeTimeout s)
                then clearTimeout (the (resizeTimeout s)) w1 else w1);
          w3 = removeEventListener Window ''resize'' (Slider me HandleResize) False w2;
          w4 = removeEventListener (Elem (container s)) ''mousedown'' (Slider me OnPointerDown) False w3;
          w5 = removeEventListener (Elem (container s)) ''touchstart'' (Slider me OnPointerDown) False w4;
          w6 = removeEventListener Document ''mousemove'' (Slider me OnPointerMove) False w5;
          w7 = removeEventListener Document ''touchmove'' (Slider me OnPointerMove) False w6;
          w8 = removeEventListener Document ''mouseup'' (Slider me OnPointerUp) False w7
      in removeEventListener Document ''touchend'' (Slider me OnPointerUp) False w8)"

text \<open>
  On an instance whose constructor returned early, \<open>destroy\<close> passes the unbound
  prototype methods, which were never registered; without a container the call
  \<open>this.container.removeEventListener\<close> throws.
\<close>

definition LoopSlider_destroy :: "loop_slider \<Rightarrow> world \<Rightarrow> error + world" where
  "LoopSlider_destroy ls w =
     (case ls of
        NoContainer \<Rightarrow> Inl TypeError
      | NoSlides c \<Rightarrow> Inr w
      | Live s \<Rightarrow> Inr (destroy_live (s, w)))"

subsection \<open>The event loop around one slider\<close>

text \<open>
  Time passes and timeouts fire. \<open>elapse e d\<close> advances the clock by \<open>d\<close> milliseconds
  and runs, in the order of their due times, the timeouts that are due by then; every
  callback that runs is logged in \<open>calls\<close>. The callback \<open>ResizeTimer\<close> of this slider runs
  \<open>updateDimensions\<close>; an exception in a callback is reported and the loop goes on.
  Callbacks of other owners do not touch this slider.
\<close>

definition runTimer :: "env \<Rightarrow> callback \<Rightarrow> slider \<times> world \<Rightarrow> slider \<times> world" where
  "runTimer e cb sw =
     (let s = fst sw; w = (snd sw)\<lparr>calls := calls (snd sw) @ [cb]\<rparr>
      in if cb = Slider (self s) ResizeTimer
         then (case resizeTimer e (s, w) of
                 Inl err \<Rightarrow> (s, w\<lparr>console := console w @ [''Uncaught exception'']\<rparr>)
               | Inr sw1 \<Rightarrow> sw1)
         else (s, w))"

definition elapse :: "env \<Rightarrow> real \<Rightarrow> slider \<times> world \<Rightarrow> slider \<times> world" where
  "elapse e d sw =
     (let s = fst sw; w = snd sw;
          t1 = clock w + d;
          due = filter (\<lambda>p. fst (snd p) \<le> t1) (timers w);
          w1 = w\<lparr>clock := t1, timers := filter (\<lambda>p. \<not> fst (snd p) \<le> t1) (timers w)\<rparr>
      in foldl (\<lambda>sw' p. runTimer e (snd (snd p)) sw') (s, w1)
           (sort_key (\<lambda>p. fst (snd p)) due))"

datatype slider_event = Resize | Elapse real

fun step :: "env \<Rightarrow> slider_event \<Rightarrow> slider \<times> world \<Rightarrow> slider \<times> world" where
  "step e Resize sw = handleResize sw"
| "step e (Elapse d) sw = elapse e d sw"

definition run :: "env \<Rightarrow> slider_event list \<Rightarrow> slider \<times> world \<Rightarrow> slider \<times> world" where
  "run e evs sw = foldl (\<lambda>sw' ev. step e ev sw') sw evs"

text \<open>
  A burst: a resize event, then further resize events, each after a gap of the given
  length.
\<close>

definition burst :: "real list \<Rightarrow> slider_event list" where
  "burst gaps = Resize # concat (map (\<lambda>d. [Elapse d, Resize]) gaps)"

definition pendingResize :: "slider \<times> world \<Rightarrow> (handle \<times> real \<times> callback) list" where
  "pendingResize sw =
     filter (\<lambda>p. snd (snd p) = Slider (self (fst sw)) ResizeTimer) (timers (snd sw))"


text \<open>
  The state that \<open>handleResize\<close> maintains: a pending recomputation of this slider is the
  one whose handle \<open>resizeTimeout\<close> holds.
\<close>

definition debounced :: "slider \<times> world \<Rightarrow> bool" where
  "debounced sw =
     (pendingResize sw = []
      \<or> (\<exists>h t. pendingResize sw = [(h, t, Slider (self (fst sw)) ResizeTimer)]
               \<and> resizeTimeout (fst sw) = Some h \<and> h \<noteq> 0))"


subsection \<open>What the browser holds for a slider\<close>

text \<open>
  A callback is owned by the slider \<open>me\<close> when it is one of its bound methods or arrow
  functions. \<open>sliderFree me w\<close>: the browser holds no callback of the slider, neither as
  a listener nor as a pending frame nor as a pending timeout. \<open>registered s\<close> are the
  listeners that \<open>setupDraggable\<close> and \<open>setupResize\<close> may add. \<open>tracked\<close>: every callback
  of the slider that the browser holds is one the instance can take back, the frame under
  the handle \<open>animation\<close>, the timeout under the handle \<open>resizeTimeout\<close>, the listeners
  among the registered ones.
\<close>

definition sliderOwned :: "nat \<Rightarrow> callback \<Rightarrow> bool" where
  "sliderOwned me cb = (case cb of Slider i k \<Rightarrow> i = me | _ \<Rightarrow> False)"

definition sliderFree :: "nat \<Rightarrow> world \<Rightarrow> bool" where
  "sliderFree me w =
     (filter (\<lambda>l. sliderOwned me (fst (snd (snd l)))) (listeners w) = []
      \<and> filter (\<lambda>p. sliderOwned me (snd p)) (rafQueue w) = []
      \<and> filter (\<lambda>p. sliderOwned me (snd (snd p))) (timers w) = [])"

definition registered :: "slider \<Rightarrow> (target \<times> string \<times> callback \<times> bool) list" where
  "registered s =
     [(Elem (container s), ''mousedown'', Slider (self s) OnPointerDown, False),
      (Elem (container s), ''touchstart'', Slider (self s) OnPointerDown, False),
      (Document, ''mousemove'', Slider (self s) OnPointerMove, False),
      (Document, ''touchmove'', Slider (self s) OnPointerMove, False),
      (Document, ''mouseup'', Slider (self s) OnPointerUp, False),
      (Document, ''touchend'', Slider (self s) OnPointerUp, False),
      (Window, ''resize'', Slider (self s) HandleResize, False)]"

definition tracked :: "slider \<times> world \<Rightarrow> bool" where
  "tracked sw =
     (list_all (\<lambda>l. sliderOwned (self (fst sw)) (fst (snd (snd l)))
                     \<longrightarrow> l \<in> set (registered (fst sw))) (listeners (snd sw))
      \<and> list_all (\<lambda>p. sliderOwned (self (fst sw)) (snd p)
                     \<longrightarrow> animation (fst sw) = Some (fst p) \<and> fst p \<noteq> 0) (rafQueue (snd sw))
      \<and> list_all (\<lambda>p. sliderOwned (self (fst sw)) (snd (snd p))
                     \<longrightarrow> resizeTimeout (fst sw) = Some (fst p) \<and> fst p \<noteq> 0) (timers (snd sw)))"

text \<open>The part of the world that DOM operations leave alone: the event loop.\<close>

definition loopState ::
  "world \<Rightarrow> (target \<times> string \<times> callback \<times> bool) list \<times> (handle \<times> callback) list \<times> handle
            \<times> (handle \<times> real \<times> callback) list \<times> handle \<times> real" where
  "loopState w = (listeners w, rafQueue w, rafNext w, timers w, timerNext w, clock w)"



section \<open>Accordion\<close>

record accordion_options =
  shouldOpenAll :: bool
  triggerSelector :: string
  contentSelector :: string
  itemSelector :: string
  activeClass :: string

record accordion_options_in =
  shouldOpenAll_in :: "bool option"
  triggerSelector_in :: "string option"
  contentSelector_in :: "string option"
  itemSelector_in :: "string option"
  activeClass_in :: "string option"

definition mergeAccordionOptions :: "accordion_options_in \<Rightarrow> accordion_options" where
  "mergeAccordionOptions i =
     \<lparr>shouldOpenAll = pick False (shouldOpenAll_in i),
      triggerSelector = pick ''.js-accordion-trigger'' (triggerSelector_in i),
      contentSelector = pick ''.js-accordion-content'' (contentSelector_in i),
      itemSelector = pick ''.js-accordion-item'' (itemSelector_in i),
      activeClass = pick ''is-active'' (activeClass_in i)\<rparr>"

record accordion =
  acc_self :: nat
  containers :: "node list"
  acc_options :: accordion_options

definition open_item :: "env \<Rightarrow> accordion \<Rightarrow> node \<Rightarrow> world \<Rightarrow> error + world" where
  "open_item e a item w =
     (case querySelector (elemQuery e item (contentSelector (acc_options a))) of
        Inl err \<Rightarrow> Inl err
      | Inr None \<Rightarrow> Inr w
      | Inr (Some content) \<Rightarrow> Inr (setAttribute content ''aria-hidden'' ''false'' w))"

definition close_item :: "env \<Rightarrow> accordion \<Rightarrow> node \<Rightarrow> world \<Rightarrow> error + world" where
  "close_item e a item w =
     (case querySelector (elemQuery e item (contentSelector (acc_options a))) of
        Inl err \<Rightarrow> Inl err
      | Inr None \<Rightarrow> Inr w
      | Inr (Some content) \<Rightarrow> Inr (setAttribute content ''aria-hidden'' ''true'' w))"

text \<open>The \<open>forEach\<close> of \<open>toggle\<close> that closes every other item.\<close>

fun close_others :: "env \<Rightarrow> accordion \<Rightarrow> node \<Rightarrow> node list \<Rightarrow> world \<Rightarrow> error + world" where
  "close_others e a item [] w = Inr w"
| "close_others e a item (otherItem # rest) w =
     (if otherItem \<noteq> item
      then (case close_item e a otherItem
                   (classList_remove otherItem (activeClass (acc_options a)) w) of
              Inl err \<Rightarrow> Inl err
            | Inr w1 \<Rightarrow> close_others e a item rest w1)
      else close_others e a item rest w)"

definition toggle :: "env \<Rightarrow> accordion \<Rightarrow> node \<Rightarrow> node list \<Rightarrow> world \<Rightarrow> error + world" where
  "toggle e a item allItems w =
     (let isActive = classList_contains w item (activeClass (acc_options a))
      in case (if \<not> shouldOpenAll (acc_options a) \<and> \<not> isActive
               then close_others e a item allItems w else Inr w) of
           Inl err \<Rightarrow> Inl err
         | Inr w1 \<Rightarrow>
             (if isActive
              then close_item e a item (classList_remove item (activeClass (acc_options a)) w1)
              else open_item e a item (classList_add item (activeClass (acc_options a)) w1)))"

text \<open>
  \<open>init\<close>: every item of every container gets a click listener on its trigger. Each
  arrow function is an object of its own, named here by container and item.
\<close>

fun init_items :: "env \<Rightarrow> accordion \<Rightarrow> node \<Rightarrow> node list \<Rightarrow> node list \<Rightarrow> world \<Rightarrow> error + world" where
  "init_items e a c items [] w = Inr w"
| "init_items e a c items (item # rest) w =
     (case querySelector (elemQuery e item (triggerSelector (acc_options a))) of
        Inl err \<Rightarrow> Inl err
      | Inr None \<Rightarrow> init_items e a c items rest w
      | Inr (Some trigger) \<Rightarrow>
          init_items e a c items rest
            (addEventListener (Elem trigger) ''click''
               (AccordionClick (acc_self a) c item items) False w))"

fun init_containers :: "env \<Rightarrow> accordion \<Rightarrow> node list \<Rightarrow> world \<Rightarrow> error + world" where
  "init_containers e a [] w = Inr w"
| "init_containers e a (c # rest) w =
     (case elemQuery e c (itemSelector (acc_options a)) of
        None \<Rightarrow> Inl SyntaxError
      | Some items \<Rightarrow>
          (case init_items e a c items items w of
             Inl err \<Rightarrow> Inl err
           | Inr w1 \<Rightarrow> init_containers e a rest w1))"

definition Accordion_init :: "env \<Rightarrow> accordion \<Rightarrow> world \<Rightarrow> error + world" where
  "Accordion_init e a w = init_containers e a (containers a) w"

text \<open>The constructor. The character \<open>0x22\<close> is the double quote of the warning.\<close>

definition Accordion_new ::
  "env \<Rightarrow> nat \<Rightarrow> string \<Rightarrow> accordion_options_in \<Rightarrow> world \<Rightarrow> error + accordion \<times> world" where
  "Accordion_new e me selector opts w =
     (case docQuery e selector of
        None \<Rightarrow> Inl SyntaxError
      | Some cs \<Rightarrow>
          (let a = \<lparr>acc_self = me, containers = cs, acc_options = mergeAccordionOptions opts\<rparr>
           in if length (containers a) = 0
              then Inr (a, w\<lparr>console := console w @
                         [''Accordion: No elements found for selector '' @ [CHR 0x22]
                            @ selector @ [CHR 0x22]]\<rparr>)
              else (case Accordion_init e a w of
                      Inl err \<Rightarrow> Inl err
                    | Inr w1 \<Rightarrow> Inr (a, w1))))"

text \<open>The click listener: \<open>e.preventDefault(); this.toggle(item, items)\<close>.\<close>

definition accordionClick :: "env \<Rightarrow> accordion \<Rightarrow> node \<Rightarrow> node list \<Rightarrow> world \<Rightarrow> error + world" where
  "accordionClick e a item items w = toggle e a item items w"



section \<open>MouseStalker\<close>

record stalker_config =
  selector :: string
  stalkerClass :: string
  textClass :: string
  defaultText :: string
  alwaysVisible :: bool
  ease :: real
  minSpeed :: real
  zIndex :: real
  pointerEventsNone :: bool
  style :: "(string \<times> css) list"

record stalker_config_in =
  selector_in :: "string option"
  stalkerClass_in :: "string option"
  textClass_in :: "string option"
  defaultText_in :: "string option"
  alwaysVisible_in :: "bool option"
  ease_in :: "real option"
  minSpeed_in :: "real option"
  zIndex_in :: "real option"
  pointerEventsNone_in :: "bool option"
  style_in :: "(string \<times> css) list option"

definition mergeStalkerConfig :: "stalker_config_in \<Rightarrow> stalker_config" where
  "mergeStalkerConfig i =
     \<lparr>selector = pick ''[data-mouse-stalker]'' (selector_in i),
      stalkerClass = pick ''c-mouse-stalker'' (stalkerClass_in i),
      textClass = pick ''c-mouse-stalker__text'' (textClass_in i),
      defaultText = pick [] (defaultText_in i),
      alwaysVisible = pick False (alwaysVisible_in i),
      ease = pick (18 / 100) (ease_in i),
      minSpeed = pick (1 / 10) (minSpeed_in i),
      zIndex = pick 9999 (zIndex_in i),
      pointerEventsNone = pick True (pointerEventsNone_in i),
      style = pick [] (style_in i)\<rparr>"

text \<open>
  The fields of \<open>this\<close>. \<open>pos\<close> and \<open>target\<close> are the two \<open>Float32Array\<close>s of length 2,
  as pairs of reals.
\<close>

record stalker =
  ms_self :: nat
  config :: stalker_config
  prefersReducedMotion :: bool
  ms_pointerFine :: bool
  isEnabled :: bool
  ms_container :: "node option"
  textEl :: "node option"
  activeTarget :: "node option"
  currentText :: string
  pos :: "real \<times> real"
  target :: "real \<times> real"
  isVisible :: bool
  rafId :: "handle option"
  isMoving :: bool
  textTimer :: "handle option"

text \<open>
  What \<open>new MouseStalker(...)\<close> yields: after an early return only \<open>config\<close> (and the
  media-query results) are assigned and the instance is inert.
\<close>

datatype mouse_stalker = Inert stalker_config | Active stalker

definition setTextContent :: "node \<Rightarrow> string \<Rightarrow> world \<Rightarrow> world" where
  "setTextContent n t w = w\<lparr>textContent := (textContent w)(n := t)\<rparr>"

definition classList_toggle :: "node \<Rightarrow> string \<Rightarrow> bool \<Rightarrow> world \<Rightarrow> world" where
  "classList_toggle n c force w = (if force then classList_add n c w else classList_remove n c w)"

text \<open>\<open>parentNode.removeChild(container)\<close>, when the container has a parent.\<close>

definition removeFromParent :: "node option \<Rightarrow> world \<Rightarrow> world" where
  "removeFromParent c w =
     (case c of
        None \<Rightarrow> w
      | Some n \<Rightarrow> (case parent w n of None \<Rightarrow> w | Some p \<Rightarrow> detach n w))"

definition showStyle :: "(string \<times> css) list" where
  "showStyle =
     [(''transition'', CssStr ''opacity 0.3s ease, visibility 0s''),
      (''visibility'', CssStr ''visible''), (''opacity'', CssStr ''1'')]"

definition hideStyle :: "(string \<times> css) list" where
  "hideStyle =
     [(''transition'', CssStr ''opacity 0.3s ease, visibility 0s linear 0.3s''),
      (''opacity'', CssStr ''0''), (''visibility'', CssStr ''hidden'')]"

definition baseStyle :: "stalker \<Rightarrow> (string \<times> css) list" where
  "baseStyle st =
     [(''position'', CssStr ''fixed''), (''top'', CssStr ''0''), (''left'', CssStr ''0''),
      (''zIndex'', CssNum (zIndex (config st))),
      (''pointerEvents'', CssStr (if pointerEventsNone (config st) then ''none'' else ''auto'')),
      (''willChange'', CssStr ''transform''), (''backfaceVisibility'', CssStr ''hidden''),
      (''transform'', CssTranslate3d (fst (pos st)) (snd (pos st))),
      (''opacity'', CssStr (if alwaysVisible (config st) then ''1'' else ''0'')),
      (''transition'', CssStr ''opacity 0.3s ease, visibility 0s linear 0.3s''),
      (''visibility'', CssStr (if alwaysVisible (config st) then ''visible'' else ''hidden''))]"

definition createStalker :: "env \<Rightarrow> stalker \<times> world \<Rightarrow> error + stalker \<times> world" where
  "createStalker e sw =
     (let st = fst sw; w = snd sw;
          w0 = removeFromParent (ms_container st) w;
          r1 = createElement w0;
          c = fst r1;
          w1 = setAttribute c ''aria-hidden'' ''true''
                 (setClassName c (stalkerClass (config st)) (snd r1));
          w2 = setStyles c (baseStyle st @ style (config st)) w1;
          r2 = createElement w2;
          t = fst r2;
          w3 = setStyle t ''opacity'' (CssStr ''0'')
                 (setStyle t ''transition'' (CssStr ''opacity 0.3s ease'')
                    (setClassName t (textClass (config st)) (snd r2)));
          st1 = st\<lparr>ms_container := Some c, textEl := Some t\<rparr>;
          withText = (alwaysVisible (config st) \<and> defaultText (config st) \<noteq> []);
          st2 = (if withText then st1\<lparr>currentText := defaultText (config st)\<rparr> else st1);
          w4 = (if withText
                then setStyle t ''opacity'' (CssStr ''1'')
                       (classList_add c ''has-text''
                          (setTextContent t (defaultText (config st)) w3))
                else w3);
          w5 = appendChild c t w4
      in case body e of
           None \<Rightarrow> Inl TypeError
         | Some b \<Rightarrow> Inr (st2, appendChild b c w5))"

definition bindEvents :: "stalker \<Rightarrow> world \<Rightarrow> world" where
  "bindEvents st w =
     addEventListener Window ''blur'' (Stalker (ms_self st) HandleWindowBlur) False
      (addEventListener Document ''pointerleave'' (Stalker (ms_self st) HandlePointerLeave) False
       (addEventListener Document ''pointerout'' (Stalker (ms_self st) HandlePointerOut) True
        (addEventListener Document ''pointerover'' (Stalker (ms_self st) HandlePointerOver) True
         (addEventListener Document ''pointermove'' (Stalker (ms_self st) HandlePointerMove) False
            w))))"

definition unbindEvents :: "stalker \<Rightarrow> world \<Rightarrow> world" where
  "unbindEvents st w =
     removeEventListener Window ''blur'' (Stalker (ms_self st) HandleWindowBlur) False
      (removeEventListener Document ''pointerleave'' (Stalker (ms_self st) HandlePointerLeave) False
       (removeEventListener Document ''pointerout'' (Stalker (ms_self st) HandlePointerOut) True
        (removeEventListener Document ''pointerover'' (Stalker (ms_self st) HandlePointerOver) True
         (removeEventListener Document ''pointermove'' (Stalker (ms_self st) HandlePointerMove) False
            w))))"

definition render_stalker :: "stalker \<times> world \<Rightarrow> stalker \<times> world" where
  "render_stalker sw =
     (let r = requestAnimationFrame (Stalker (ms_self (fst sw)) Update) (snd sw)
      in ((fst sw)\<lparr>rafId := Some (fst r)\<rparr>, snd r))"

definition MouseStalker_init :: "env \<Rightarrow> stalker \<times> world \<Rightarrow> error + stalker \<times> world" where
  "MouseStalker_init e sw =
     (if isEnabled (fst sw) then Inr sw
      else (case createStalker e sw of
              Inl err \<Rightarrow> Inl err
            | Inr sw1 \<Rightarrow>
                Inr (render_stalker
                       ((fst sw1)\<lparr>isEnabled := True\<rparr>, bindEvents (fst sw1) (snd sw1)))))"

definition MouseStalker_new ::
  "env \<Rightarrow> nat \<Rightarrow> stalker_config_in \<Rightarrow> world \<Rightarrow> error + mouse_stalker \<times> world" where
  "MouseStalker_new e me opts w =
     (let cfg = mergeStalkerConfig opts
      in if \<not> windowDefined e \<or> \<not> documentDefined e then Inr (Inert cfg, w)
         else if reducedMotion e then Inr (Inert cfg, w)
         else if \<not> pointerFine e then Inr (Inert cfg, w)
         else (let st = \<lparr>ms_self = me, config = cfg,
                          prefersReducedMotion = reducedMotion e,
                          ms_pointerFine = pointerFine e, isEnabled = False,
                          ms_container = None, textEl = None, activeTarget = None,
                          currentText = [],
                          pos = (innerWidth e / 2, innerHeight e / 2),
                          target = (innerWidth e / 2, innerHeight e / 2),
                          isVisible = False, rafId = None, isMoving = False,
                          textTimer = None\<rparr>
               in case MouseStalker_init e (st, w) of
                    Inl err \<Rightarrow> Inl err
                  | Inr sw \<Rightarrow> Inr (Active (fst sw), snd sw)))"

subsection \<open>Text and visibility\<close>

definition cancelTextTimer :: "stalker \<times> world \<Rightarrow> stalker \<times> world" where
  "cancelTextTimer sw =
     (if truthy_handle (textTimer (fst sw))
      then ((fst sw)\<lparr>textTimer := None\<rparr>, clearTimeout (the (textTimer (fst sw))) (snd sw))
      else sw)"

definition setText :: "string \<Rightarrow> stalker \<times> world \<Rightarrow> error + stalker \<times> world" where
  "setText text sw =
     (let sw1 = cancelTextTimer sw; st = fst sw1; w = snd sw1
      in if currentText st = text
         then (if text \<noteq> []
               then (case (textEl st, ms_container st) of
                       (Some t, Some c) \<Rightarrow>
                         Inr (st, classList_add c ''has-text'' (setStyle t ''opacity'' (CssStr ''1'') w))
                     | _ \<Rightarrow> Inl TypeError)
               else Inr (st, w))
         else (case textEl st of
                 None \<Rightarrow> Inl TypeError
               | Some t \<Rightarrow>
                   (let w1 = setStyle t ''opacity'' (CssStr ''0'') w;
                        r = setTimeout (Stalker (ms_self st) (SetTextTimer text)) 200 w1
                    in Inr (st\<lparr>textTimer := Some (fst r)\<rparr>, snd r))))"

definition setTextTimer :: "string \<Rightarrow> stalker \<times> world \<Rightarrow> error + stalker \<times> world" where
  "setTextTimer text sw =
     (let st = fst sw; w = snd sw
      in case (textEl st, ms_container st) of
           (Some t, Some c) \<Rightarrow>
             (let w1 = classList_toggle c ''has-text'' (text \<noteq> []) (setTextContent t text w);
                  w2 = (if text \<noteq> [] then setStyle t ''opacity'' (CssStr ''1'') w1 else w1)
              in Inr (st\<lparr>currentText := text, textTimer := None\<rparr>, w2))
         | _ \<Rightarrow> Inl TypeError)"

definition clearText :: "stalker \<times> world \<Rightarrow> error + stalker \<times> world" where
  "clearText sw =
     (let sw1 = cancelTextTimer sw; st = fst sw1; w = snd sw1
      in if currentText st = [] then Inr (st, w)
         else (case textEl st of
                 None \<Rightarrow> Inl TypeError
               | Some t \<Rightarrow>
                   (let w1 = setStyle t ''opacity'' (CssStr ''0'') w;
                        r = setTimeout (Stalker (ms_self st) ClearTextTimer) 200 w1
                    in Inr (st\<lparr>textTimer := Some (fst r)\<rparr>, snd r))))"

definition clearTextTimer :: "stalker \<times> world \<Rightarrow> error + stalker \<times> world" where
  "clearTextTimer sw =
     (let st = fst sw; w = snd sw
      in case (textEl st, ms_container st) of
           (Some t, Some c) \<Rightarrow>
             Inr (st\<lparr>currentText := [], textTimer := None\<rparr>,
                  classList_remove c ''has-text'' (setTextContent t [] w))
         | _ \<Rightarrow> Inl TypeError)"

text \<open>
  \<open>clearMouseStalker\<close>. When the stalker is not always visible it hides the container and
  schedules, 300 milliseconds later, the arrow function \<open>hoverTimer\<close>; the handle that
  \<open>setTimeout\<close> returns is not kept.
\<close>

definition clearMouseStalker :: "stalker \<times> world \<Rightarrow> error + stalker \<times> world" where
  "clearMouseStalker sw =
     (let st0 = (fst sw)\<lparr>activeTarget := None\<rparr>
      in case (if alwaysVisible (config st0) \<and> defaultText (config st0) \<noteq> []
               then setText (defaultText (config st0)) (st0, snd sw)
               else clearText (st0, snd sw)) of
           Inl err \<Rightarrow> Inl err
         | Inr sw1 \<Rightarrow>
             (case ms_container (fst sw1) of
                None \<Rightarrow> Inl TypeError
              | Some c \<Rightarrow>
                  (if \<not> alwaysVisible (config (fst sw1))
                   then (let w1 = setStyles c hideStyle (snd sw1);
                             r = setTimeout (Stalker (ms_self (fst sw1)) HoverTimer) 300 w1
                         in Inr ((fst sw1)\<lparr>isVisible := False\<rparr>, snd r))
                   else Inr (fst sw1, classList_remove c ''is-hover'' (snd sw1)))))"

definition hoverTimer :: "stalker \<times> world \<Rightarrow> error + stalker \<times> world" where
  "hoverTimer sw =
     (let st = fst sw; w = snd sw
      in if \<not> isVisible st \<and> activeTarget st = None
         then (case ms_container st of
                 None \<Rightarrow> Inl TypeError
               | Some c \<Rightarrow> Inr (st, classList_remove c ''is-hover'' w))
         else Inr (st, w))"

subsection \<open>Event handlers\<close>

definition handlePointerMove :: "event \<Rightarrow> stalker \<times> world \<Rightarrow> error + stalker \<times> world" where
  "handlePointerMove ev sw =
     (let st = (fst sw)\<lparr>target := (clientX ev, clientY ev)\<rparr>; w = snd sw
      in case (if \<not> isVisible st \<and> isEnabled st \<and> alwaysVisible (config st)
               then (case ms_container st of
                       None \<Rightarrow> Inl TypeError
                     | Some c \<Rightarrow> Inr (st\<lparr>isVisible := True\<rparr>, setStyles c showStyle w))
               else Inr (st, w)) of
           Inl err \<Rightarrow> Inl err
         | Inr sw1 \<Rightarrow>
             (if \<not> isMoving (fst sw1)
              then (let r = requestAnimationFrame (Stalker (ms_self (fst sw1)) Update) (snd sw1)
                    in Inr ((fst sw1)\<lparr>isMoving := True, rafId := Some (fst r)\<rparr>, snd r))
              else Inr sw1))"

definition handlePointerOver ::
  "env \<Rightarrow> event \<Rightarrow> stalker \<times> world \<Rightarrow> error + stalker \<times> world" where
  "handlePointerOver e ev sw =
     (let st = fst sw; w = snd sw
      in case closest ev (selector (config st)) of
           None \<Rightarrow> Inl SyntaxError
         | Some None \<Rightarrow> Inr (st, w)
         | Some (Some tg) \<Rightarrow>
             (if activeTarget st = Some tg then Inr (st, w)
              else (let st1 = st\<lparr>activeTarget := Some tg\<rparr>;
                        text = (if datasetMouseStalker e tg \<noteq> [] then datasetMouseStalker e tg
                                else defaultText (config st1))
                    in case (ms_container st1, textEl st1) of
                         (Some c, Some t) \<Rightarrow>
                           (let w1 = classList_add c ''is-hover'' w
                            in if \<not> isVisible st1
                               then (let w2 = setStyles c showStyle w1;
                                         sw3 = cancelTextTimer (st1\<lparr>isVisible := True\<rparr>, w2);
                                         w4 = classList_toggle c ''has-text'' (text \<noteq> [])
                                                (setTextContent t text (snd sw3));
                                         w5 = setStyle t ''opacity''
                                                (CssStr (if text \<noteq> [] then ''1'' else ''0'')) w4
                                     in Inr ((fst sw3)\<lparr>currentText := text\<rparr>, w5))
                               else setText text (st1, w1))
                       | _ \<Rightarrow> Inl TypeError)))"

definition handlePointerOut ::
  "env \<Rightarrow> event \<Rightarrow> stalker \<times> world \<Rightarrow> error + stalker \<times> world" where
  "handlePointerOut e ev sw =
     (case activeTarget (fst sw) of
        None \<Rightarrow> Inr sw
      | Some tg \<Rightarrow>
          (case relatedTarget ev of
             None \<Rightarrow> clearMouseStalker sw
           | Some related \<Rightarrow>
               (if contains e tg related then Inr sw else clearMouseStalker sw)))"

definition hideStalker :: "stalker \<times> world \<Rightarrow> error + stalker \<times> world" where
  "hideStalker sw =
     (if alwaysVisible (config (fst sw)) then Inr sw
      else (case ms_container (fst sw) of
              None \<Rightarrow> Inl TypeError
            | Some c \<Rightarrow> Inr ((fst sw)\<lparr>isVisible := False\<rparr>, setStyles c hideStyle (snd sw))))"

definition handlePointerLeave :: "stalker \<times> world \<Rightarrow> error + stalker \<times> world" where
  "handlePointerLeave sw = hideStalker sw"

definition handleWindowBlur :: "stalker \<times> world \<Rightarrow> error + stalker \<times> world" where
  "handleWindowBlur sw = hideStalker sw"

subsection \<open>Animation\<close>

text \<open>
  \<open>x | 0\<close> is \<open>ToInt32\<close>: truncation towards zero, then reduction modulo \<open>2^32\<close> into the
  signed range.
\<close>

definition toInt32 :: "real \<Rightarrow> int" where
  "toInt32 x =
     (let t = (if x < 0 then \<lceil>x\<rceil> else \<lfloor>x\<rfloor>);
          m = t mod 2 ^ 32
      in if m \<ge> 2 ^ 31 then m - 2 ^ 32 else m)"

definition update :: "stalker \<times> world \<Rightarrow> error + stalker \<times> world" where
  "update sw =
     (let st = fst sw; w = snd sw
      in if \<not> isEnabled st then Inr (st, w)
         else (let dx = fst (target st) - fst (pos st);
                   dy = snd (target st) - snd (pos st)
               in case ms_container st of
                    None \<Rightarrow> Inl TypeError
                  | Some c \<Rightarrow>
                      (if \<bar>dx\<bar> < minSpeed (config st) \<and> \<bar>dy\<bar> < minSpeed (config st)
                       then Inr (st\<lparr>pos := target st, isMoving := False\<rparr>,
                                 setStyle c ''transform''
                                   (CssTranslate3d (fst (target st)) (snd (target st))) w)
                       else (let p = (fst (pos st) + dx * ease (config st),
                                      snd (pos st) + dy * ease (config st));
                                 x = of_int (toInt32 (fst p * 100)) / 100;
                                 y = of_int (toInt32 (snd p * 100)) / 100;
                                 w1 = setStyle c ''transform'' (CssTranslate3d x y) w;
                                 r = requestAnimationFrame (Stalker (ms_self st) Update) w1
                             in Inr (st\<lparr>pos := p, rafId := Some (fst r)\<rparr>, snd r)))))"

definition disable :: "stalker \<times> world \<Rightarrow> error + stalker \<times> world" where
  "disable sw =
     (let st = (fst sw)\<lparr>isEnabled := False\<rparr>
      in case ms_container st of
           None \<Rightarrow> Inl TypeError
         | Some c \<Rightarrow>
             (let w1 = setStyle c ''display'' (CssStr ''none'') (snd sw)
              in Inr (st, if truthy_handle (rafId st)
                          then cancelAnimationFrame (the (rafId st)) w1 else w1)))"

definition enable :: "stalker \<times> world \<Rightarrow> error + stalker \<times> world" where
  "enable sw =
     (if isEnabled (fst sw) then Inr sw
      else (let st = (fst sw)\<lparr>isEnabled := True\<rparr>
            in case ms_container st of
                 None \<Rightarrow> Inl TypeError
               | Some c \<Rightarrow>
                   Inr (render_stalker
                          (st\<lparr>pos := target st\<rparr>,
                           setStyle c ''display'' (CssStr ''block'') (snd sw)))))"

subsection \<open>Destruction\<close>

definition MouseStalker_destroy :: "stalker \<times> world \<Rightarrow> stalker \<times> world" where
  "MouseStalker_destroy sw =
     (let st = (fst sw)\<lparr>isEnabled := False\<rparr>; w = snd sw;
          w1 = (if truthy_handle (rafId st) then cancelAnimationFrame (the (rafId st)) w else w);
          w2 = (if truthy_handle (textTimer st) then clearTimeout (the (textTimer st)) w1 else w1);
          w3 = unbindEvents st w2;
          w4 = removeFromParent (ms_container st) w3
      in (st\<lparr>ms_container := None, textEl := None\<rparr>, w4))"

text \<open>
  The callbacks of the instance that the browser still holds: pending timeouts,
  pending animation frames and registered listeners with a callback of this owner.
\<close>

definition stalkerPendingTimers :: "nat \<Rightarrow> world \<Rightarrow> (handle \<times> real \<times> callback) list" where
  "stalkerPendingTimers me w =
     filter (\<lambda>p. case snd (snd p) of Stalker i cb \<Rightarrow> i = me | _ \<Rightarrow> False) (timers w)"

definition stalkerPendingFrames :: "nat \<Rightarrow> world \<Rightarrow> (handle \<times> callback) list" where
  "stalkerPendingFrames me w =
     filter (\<lambda>p. case snd p of Stalker i cb \<Rightarrow> i = me | _ \<Rightarrow> False) (rafQueue w)"

definition stalkerListeners :: "nat \<Rightarrow> world \<Rightarrow> (target \<times> string \<times> callback \<times> bool) list" where
  "stalkerListeners me w =
     filter (\<lambda>p. case fst (snd (snd p)) of Stalker i cb \<Rightarrow> i = me | _ \<Rightarrow> False) (listeners w)"

text \<open>The callbacks of all pending timeouts.\<close>

definition timerCallbacks :: "world \<Rightarrow> callback list" where
  "timerCallbacks w = map (\<lambda>p. snd (snd p)) (timers w)"

text \<open>Running a callback of the stalker that the browser took from its queues.\<close>

fun runStalker :: "env \<Rightarrow> event \<Rightarrow> stalker_cb \<Rightarrow> stalker \<times> world \<Rightarrow> error + stalker \<times> world" where
  "runStalker e ev Update sw = update sw"
| "runStalker e ev (SetTextTimer text) sw = setTextTimer text sw"
| "runStalker e ev ClearTextTimer sw = clearTextTimer sw"
| "runStalker e ev HoverTimer sw = hoverTimer sw"
| "runStalker e ev HandlePointerMove sw = handlePointerMove ev sw"
| "runStalker e ev HandlePointerOver sw = handlePointerOver e ev sw"
| "runStalker e ev HandlePointerOut sw = handlePointerOut e ev sw"
| "runStalker e ev HandlePointerLeave sw = handlePointerLeave sw"
| "runStalker e ev HandleWindowBlur sw = handleWindowBlur sw"


section \<open>ScrollProgressAnimation\<close>

text \<open>
  The two callbacks of the configuration are functions of the caller; the model keeps
  only whether they are given (their identity).
\<close>

record progress_config =
  containerSelector :: string
  progressSelector :: string
  progressItemSelector :: string
  cfg_start :: string
  cfg_end :: string
  onItemActive :: "nat option"
  onItemInactive :: "nat option"

record progress_config_in =
  containerSelector_in :: "string option"
  progressSelector_in :: "string option"
  progressItemSelector_in :: "string option"
  triggerPosition_in :: "string option"
  start_in :: "string option"
  end_in :: "string option"
  onItemActive_in :: "nat option option"
  onItemInactive_in :: "nat option option"

definition mergeProgressConfig :: "progress_config_in \<Rightarrow> progress_config" where
  "mergeProgressConfig i =
     \<lparr>containerSelector = pick ''.js-scroll-progress-container'' (containerSelector_in i),
      progressSelector = pick ''.js-scroll-progress-line'' (progressSelector_in i),
      progressItemSelector = pick ''[data-scroll-item]'' (progressItemSelector_in i),
      cfg_start = pick (''top '' @ pick ''60%'' (triggerPosition_in i)) (start_in i),
      cfg_end = pick (''bottom '' @ pick ''60%'' (triggerPosition_in i)) (end_in i),
      onItemActive = pick None (onItemActive_in i),
      onItemInactive = pick None (onItemInactive_in i)\<rparr>"

record progress_animation =
  pa_self :: nat
  pa_config :: progress_config
  pa_container :: "node option"
  progress :: "node option"
  pa_items :: "node list"
  scrollTriggers :: "handle list"

definition ScrollProgressAnimation_new ::
  "env \<Rightarrow> nat \<Rightarrow> progress_config_in \<Rightarrow> error + progress_animation" where
  "ScrollProgressAnimation_new e me opts =
     (let cfg = mergeProgressConfig opts
      in case querySelector (docQuery e (containerSelector cfg)) of
           Inl err \<Rightarrow> Inl err
         | Inr c \<Rightarrow>
             (case querySelector (docQuery e (progressSelector cfg)) of
                Inl err \<Rightarrow> Inl err
              | Inr pr \<Rightarrow>
                  (case docQuery e (progressItemSelector cfg) of
                     None \<Rightarrow> Inl SyntaxError
                   | Some its \<Rightarrow>
                       Inr \<lparr>pa_self = me, pa_config = cfg, pa_container = c, progress = pr,
                            pa_items = its, scrollTriggers = []\<rparr>)))"

definition isValid :: "progress_animation \<Rightarrow> bool" where
  "isValid p = (pa_container p \<noteq> None \<and> progress p \<noteq> None \<and> length (pa_items p) > 0)"

definition animateProgress :: "progress_animation \<times> world \<Rightarrow> progress_animation \<times> world" where
  "animateProgress pw =
     (let p = fst pw;
          r = ScrollTrigger_create
                \<lparr>trigger_elem = pa_container p, start_pos = cfg_start (pa_config p),
                 end_pos = cfg_end (pa_config p), scrub = Some 1, tween = progress p,
                 onEnter = None, onLeaveBack = None\<rparr> (snd pw)
      in (p\<lparr>scrollTriggers := scrollTriggers p @ [fst r]\<rparr>, snd r))"

definition animateItem :: "progress_animation \<times> world \<Rightarrow> node \<Rightarrow> progress_animation \<times> world" where
  "animateItem pw item =
     (let p = fst pw;
          r = ScrollTrigger_create
                \<lparr>trigger_elem = Some item, start_pos = cfg_start (pa_config p),
                 end_pos = cfg_end (pa_config p), scrub = None, tween = None,
                 onEnter = Some (ProgressEnter (pa_self p) item),
                 onLeaveBack = Some (ProgressLeaveBack (pa_self p) item)\<rparr> (snd pw)
      in (p\<lparr>scrollTriggers := scrollTriggers p @ [fst r]\<rparr>, snd r))"

definition animateItems :: "progress_animation \<times> world \<Rightarrow> progress_animation \<times> world" where
  "animateItems pw = foldl animateItem pw (pa_items (fst pw))"

text \<open>\<open>init\<close> returns \<open>this\<close>: the instance of the result.\<close>

definition ScrollProgressAnimation_init ::
  "progress_animation \<times> world \<Rightarrow> progress_animation \<times> world" where
  "ScrollProgressAnimation_init pw =
     (if \<not> isValid (fst pw) then pw else animateItems (animateProgress pw))"

text \<open>\<open>destroy\<close>: every trigger of the instance is killed, that is, taken out of GSAP.\<close>

definition ScrollProgressAnimation_destroy ::
  "progress_animation \<times> world \<Rightarrow> progress_animation \<times> world" where
  "ScrollProgressAnimation_destroy pw =
     ((fst pw)\<lparr>scrollTriggers := []\<rparr>,
      (snd pw)\<lparr>triggers := filter (\<lambda>t. fst t \<notin> set (scrollTriggers (fst pw)))
                               (triggers (snd pw))\<rparr>)"


section \<open>Build configuration (vite.config.js)\<close>

text \<open>
  The two regular expressions of \<open>assetFileNames\<close> use literals, alternation, \<open>?\<close> and a
  final \<open>$\<close>. Such an expression denotes finitely many words; without the \<open>m\<close> flag
  \<open>$\<close> matches at the end of the input only, so \<open>/r$/.test(s)\<close> holds when one of the
  words of \<open>r\<close> is a suffix of \<open>s\<close>.
\<close>

datatype regex = Eps | Chr char | Cat regex regex | Alt regex regex | Opt regex

fun lit :: "string \<Rightarrow> regex" where
  "lit [] = Eps"
| "lit (c # cs) = Cat (Chr c) (lit cs)"

fun words :: "regex \<Rightarrow> string list" where
  "words Eps = [[]]"
| "words (Chr c) = [[c]]"
| "words (Cat a b) = concat (map (\<lambda>x. map (\<lambda>y. x @ y) (words b)) (words a))"
| "words (Alt a b) = words a @ words b"
| "words (Opt a) = [] # words a"

definition ends_with :: "string \<Rightarrow> string \<Rightarrow> bool" where
  "ends_with suf s = (length suf \<le> length s \<and> drop (length s - length suf) s = suf)"

definition test_end :: "regex \<Rightarrow> string \<Rightarrow> bool" where
  "test_end r s = list_ex (\<lambda>w. ends_with w s) (words r)"

text \<open>\<open>/\.(gif|jpe?g|png|svg|webp)$/\<close> and \<open>/\.css$/\<close>.\<close>

definition image_regex :: regex where
  "image_regex =
     Cat (Chr CHR ''.'')
       (Alt (lit ''gif'')
         (Alt (Cat (lit ''jp'') (Cat (Opt (Chr CHR ''e'')) (Chr CHR ''g'')))
           (Alt (lit ''png'') (Alt (lit ''svg'') (lit ''webp'')))))"

definition css_regex :: regex where
  "css_regex = Cat (Chr CHR ''.'') (lit ''css'')"

text \<open>\<open>name\<close> may be undefined: \<open>name ?? ''\<close>.\<close>

definition assetFileNames :: "string option \<Rightarrow> string" where
  "assetFileNames name =
     (if test_end image_regex (case name of None \<Rightarrow> [] | Some n \<Rightarrow> n)
      then ''assets/image/[name][extname]''
      else if test_end css_regex (case name of None \<Rightarrow> [] | Some n \<Rightarrow> n)
      then ''assets/scss/[name][extname]''
      else ''assets/[name][extname]'')"

definition entryFileNames :: string where
  "entryFileNames = ''assets/js/[name].js''"

definition chunkFileNames :: string where
  "chunkFileNames = ''assets/js/[name].js''"

text \<open>The mapping as the specification words it.\<close>

definition image_extensions :: "string list" where
  "image_extensions = [''.gif'', ''.jpg'', ''.jpeg'', ''.png'', ''.svg'', ''.webp'']"

definition spec_asset_path :: "string \<Rightarrow> string" where
  "spec_asset_path name =
     (if \<exists>ext \<in> set image_extensions. ends_with ext name
      then ''assets/image/[name][extname]''
      else if ends_with ''.css'' name then ''assets/scss/[name][extname]''
      else ''assets/[name][extname]'')"

text \<open>
  The extension of a name: the text from its last dot on, or nothing when the name has no
  dot.
\<close>

definition extension :: "string \<Rightarrow> string" where
  "extension s =
     (if CHR ''.'' \<in> set s
      then CHR ''.'' # rev (takeWhile (\<lambda>c. c \<noteq> CHR ''.'') (rev s))
      else [])"


section \<open>Concrete pages for evaluation\<close>

text \<open>
  A small page and instances on it, on which the definitions are evaluated.
\<close>

definition demo_options :: slider_options where
  "demo_options = \<lparr>speed = 50, gap = Some 20, reverse = False, effect = ''draggable'',
     scrollSpeed = 1 / 2, draggable = True, inertia = 95 / 100\<rparr>"

definition demo_env :: env where
  "demo_env = \<lparr>windowDefined = True, documentDefined = True, body = Some 0,
     reducedMotion = False, pointerFine = True, innerWidth = 1280, innerHeight = 720,
     scrollY = 0,
     docQuery = (\<lambda>sel. if sel = ''.js-loop-slider2'' then Some [1] else Some []),
     elemQuery = (\<lambda>n sel. Some []),
     offsetWidth = (\<lambda>n. 30), gapStyle = (\<lambda>n. []), columnGapStyle = (\<lambda>n. []),
     parseFloat = (\<lambda>s. None), datasetMouseStalker = (\<lambda>n. []),
     contains = (\<lambda>a b. False)\<rparr>"

definition demo_world :: world where
  "demo_world = \<lparr>kids = (\<lambda>n. if n = 0 then [1] else if n = 1 then [2, 3] else []),
     parent = (\<lambda>n. if n = 1 then Some 0 else if n = 2 \<or> n = 3 then Some 1 else None),
     classes = (\<lambda>n. []), attrs = (\<lambda>n. Map.empty), styles = (\<lambda>n. Map.empty),
     textContent = (\<lambda>n. []), nodeNext = 4, listeners = [], rafQueue = [], rafNext = 0,
     timers = [], timerNext = 0, clock = 1000, console = [], calls = [],
     triggers = [], triggerNext = 0\<rparr>"

definition demo_slider :: slider where
  "demo_slider = \<lparr>self = 7, container = 1, slides = [2, 3], options = demo_options,
     baseX = - 250, dragX = 0, isDragging = False, startX = 0, currentX = 0,
     animation = Some 1, wrapper = Some 4, resizeTimeout = None,
     smoothedScrollY = 0, lastSmoothedScrollY = 0, velocity = 0, lastDragX = 0,
     lastTime = 0, startDragX = 0, slideWidth = 50, totalWidth = 100,
     lastFrameTime = Some 1000, direction = 1\<rparr>"

text \<open>
  An accordion container \<open>10\<close> with the items \<open>11\<close>, \<open>12\<close>, \<open>13\<close>; item \<open>n\<close> has the content
  \<open>n + 10\<close> and the trigger \<open>n + 20\<close>.
\<close>

definition acc_env :: env where
  "acc_env = demo_env\<lparr>
     docQuery := (\<lambda>sel. if sel = ''.js-accordion'' then Some [10] else Some []),
     elemQuery := (\<lambda>n sel.
        if n = 10 \<and> sel = ''.js-accordion-item'' then Some [11, 12, 13]
        else if (n = 11 \<or> n = 12 \<or> n = 13) \<and> sel = ''.js-accordion-content''
        then Some [n + 10]
        else if (n = 11 \<or> n = 12 \<or> n = 13) \<and> sel = ''.js-accordion-trigger''
        then Some [n + 20]
        else Some [])\<rparr>"





definition no_accordion_options :: accordion_options_in where
  "no_accordion_options = \<lparr>shouldOpenAll_in = None, triggerSelector_in = None,
     contentSelector_in = None, itemSelector_in = None, activeClass_in = None\<rparr>"

definition no_progress_options :: progress_config_in where
  "no_progress_options = \<lparr>containerSelector_in = None, progressSelector_in = None,
     progressItemSelector_in = None, triggerPosition_in = None, start_in = None,
     end_in = None, onItemActive_in = None, onItemInactive_in = None\<rparr>"

definition no_stalker_options :: stalker_config_in where
  "no_stalker_options = \<lparr>selector_in = None, stalkerClass_in = None, textClass_in = None,
     defaultText_in = None, alwaysVisible_in = None, ease_in = None, minSpeed_in = None,
     zIndex_in = None, pointerEventsNone_in = None, style_in = None\<rparr>"


text \<open>
  A session with the mouse stalker: the element \<open>2\<close> carries \<open>data-mouse-stalker="VIEW"\<close>;
  the stalker is constructed, the pointer enters element \<open>2\<close>, leaves it for element \<open>1\<close>,
  and \<open>destroy()\<close> is called before any timeout is due.
\<close>

definition andThen :: "error + 'a \<Rightarrow> ('a \<Rightarrow> error + 'b) \<Rightarrow> error + 'b" where
  "andThen r f = (case r of Inl err \<Rightarrow> Inl err | Inr x \<Rightarrow> f x)"

definition stalker_env :: env where
  "stalker_env = demo_env\<lparr>datasetMouseStalker := (\<lambda>n. if n = 2 then ''VIEW'' else [])\<rparr>"

definition over_link :: event where
  "over_link = \<lparr>etype = ''pointerover'', touches = None, clientX = 100, clientY = 50,
     closest = (\<lambda>sel. if sel = ''[data-mouse-stalker]'' then Some (Some 2) else Some None),
     relatedTarget = None\<rparr>"

definition out_of_link :: event where
  "out_of_link = \<lparr>etype = ''pointerout'', touches = None, clientX = 300, clientY = 50,
     closest = (\<lambda>sel. Some None), relatedTarget = Some 1\<rparr>"

definition stalker_of :: "error + mouse_stalker \<times> world \<Rightarrow> error + stalker \<times> world" where
  "stalker_of r =
     (case r of
        Inl err \<Rightarrow> Inl err
      | Inr (Inert cfg, w) \<Rightarrow> Inl TypeError
      | Inr (Active st, w) \<Rightarrow> Inr (st, w))"

definition hover_then_destroy :: "error + stalker \<times> world" where
  "hover_then_destroy =
     andThen (stalker_of (MouseStalker_new stalker_env 9 no_stalker_options demo_world))
       (\<lambda>sw1. andThen (handlePointerOver stalker_env over_link sw1)
         (\<lambda>sw2. andThen (handlePointerOut stalker_env out_of_link sw2)
           (\<lambda>sw3. Inr (MouseStalker_destroy sw3))))"



text \<open>A page with the elements of a scroll progress line: container, line and two items.\<close>

definition progress_env :: env where
  "progress_env = demo_env\<lparr>docQuery := (\<lambda>sel.
      if sel = ''.js-scroll-progress-container'' then Some [40]
      else if sel = ''.js-scroll-progress-line'' then Some [41]
      else if sel = ''[data-scroll-item]'' then Some [42, 43]
      else Some [])\<rparr>"


section \<open>LoopSlider: position arithmetic\<close>


lemma moveStep_frame [simp]:
  "totalWidth (moveStep e t s) = totalWidth s"
  "wrapper (moveStep e t s) = wrapper s"
  "self (moveStep e t s) = self s"
  by (simp_all add: moveStep_def scrollStep_def autoStep_def inertiaStep_def Let_def)



lemma updatePosition_example:
  "map_sum id (\<lambda>r. (baseX (fst r), dragX (fst r), animation (fst r), rafQueue (snd r),
       styles (snd r) 4 ''transform''))
     (updatePosition demo_env 1016 (demo_slider, demo_world))
   = Inr (- 1508 / 10, 0, Some 1, [(1, Slider 7 UpdatePosition)],
          Some (CssTranslate3d (- 1508 / 10) 0))"
  by (simp add: updatePosition_def render_def moveStep_def frameTimestamp_def scrollStep_def
      autoStep_def inertiaStep_def loopCorrect_def toFixed2_def requestAnimationFrame_def
      setStyle_def truthy_num_def demo_slider_def demo_world_def demo_env_def
      demo_options_def Let_def)







section \<open>Build configuration: output paths\<close>

lemma ends_with_suffix: "ends_with w s \<longleftrightarrow> (\<exists>p. s = p @ w)"
proof
  assume a: "ends_with w s"
  have "take (length s - length w) s @ drop (length s - length w) s = s"
    by (rule append_take_drop_id)
  with a have "s = take (length s - length w) s @ w"
    by (simp add: ends_with_def)
  then show "\<exists>p. s = p @ w" by (rule exI)
next
  assume "\<exists>p. s = p @ w"
  then obtain p where "s = p @ w" by (rule exE)
  then show "ends_with w s" by (simp add: ends_with_def)
qed

lemma takeWhile_to_sep:
  assumes "d \<notin> set ys"
  shows "takeWhile (\<lambda>c. c \<noteq> d) (ys @ d # zs) = ys"
  using assms by (induction ys) auto

lemma split_at_sep:
  assumes "d \<in> set t"
  shows "\<exists>r. t = takeWhile (\<lambda>c. c \<noteq> d) t @ d # r"
  using assms by (induction t) auto

lemma ends_with_extension:
  assumes "CHR ''.'' \<notin> set xs"
  shows "ends_with (CHR ''.'' # xs) s \<longleftrightarrow> extension s = CHR ''.'' # xs"
proof
  assume "ends_with (CHR ''.'' # xs) s"
  then obtain p where s: "s = p @ CHR ''.'' # xs" unfolding ends_with_suffix by (rule exE)
  have r: "rev s = rev xs @ CHR ''.'' # rev p" unfolding s by simp
  have "CHR ''.'' \<notin> set (rev xs)" using assms by simp
  then have "takeWhile (\<lambda>c. c \<noteq> CHR ''.'') (rev s) = rev xs"
    unfolding r by (rule takeWhile_to_sep)
  moreover have "CHR ''.'' \<in> set s" unfolding s by simp
  ultimately show "extension s = CHR ''.'' # xs" unfolding extension_def by simp
next
  assume e: "extension s = CHR ''.'' # xs"
  have d: "CHR ''.'' \<in> set s"
  proof (rule ccontr)
    assume "CHR ''.'' \<notin> set s"
    then have "extension s = []" unfolding extension_def by simp
    with e show False by simp
  qed
  with e have "rev (takeWhile (\<lambda>c. c \<noteq> CHR ''.'') (rev s)) = xs"
    unfolding extension_def by simp
  then have t: "takeWhile (\<lambda>c. c \<noteq> CHR ''.'') (rev s) = rev xs"
    by (simp add: rev_swap)
  from d have "CHR ''.'' \<in> set (rev s)" by simp
  from split_at_sep [OF this] obtain r where
    "rev s = takeWhile (\<lambda>c. c \<noteq> CHR ''.'') (rev s) @ CHR ''.'' # r" by (rule exE)
  then have "rev s = rev xs @ CHR ''.'' # r" unfolding t .
  then have "rev (rev s) = rev (rev xs @ CHR ''.'' # r)" by (rule arg_cong)
  then have "s = rev r @ CHR ''.'' # xs" by simp
  then show "ends_with (CHR ''.'' # xs) s" unfolding ends_with_suffix by (rule exI)
qed


lemma words_image_regex:
  "words image_regex = [''.gif'', ''.jpg'', ''.jpeg'', ''.png'', ''.svg'', ''.webp'']"
  by (simp add: image_regex_def)

lemma words_css_regex: "words css_regex = [''.css'']"
  by (simp add: css_regex_def)

lemma test_end_extension:
  "test_end image_regex s \<longleftrightarrow> extension s \<in> set (words image_regex)"
  "test_end css_regex s \<longleftrightarrow> extension s \<in> set (words css_regex)"
  by (simp_all add: test_end_def words_image_regex words_css_regex ends_with_extension)

lemma assetFileNames_extension:
  "assetFileNames (Some name) =
     (if extension name \<in> set (words image_regex) then ''assets/image/[name][extname]''
      else if extension name \<in> set (words css_regex) then ''assets/scss/[name][extname]''
      else ''assets/[name][extname]'')"
  by (simp only: assetFileNames_def test_end_extension option.case)

text \<open>
  Claim C4. \<open>assetFileNames\<close> sends a name ending in \<open>.gif\<close>, \<open>.jpg\<close>, \<open>.jpeg\<close>, \<open>.png\<close>,
  \<open>.svg\<close> or \<open>.webp\<close> to \<open>assets/image/[name][extname]\<close>, any other name ending in \<open>.css\<close>
  to \<open>assets/scss/[name][extname]\<close>, and every other asset (also one without a name) to
  \<open>assets/[name][extname]\<close>; two names with the same extension get the same path; entry
  and chunk scripts go to \<open>assets/js/[name].js\<close>.
\<close>

theorem assetFileNames_by_extension:
  "assetFileNames (Some name) = spec_asset_path name
   \<and> (extension name = extension other \<longrightarrow>
        assetFileNames (Some name) = assetFileNames (Some other))
   \<and> assetFileNames None = ''assets/[name][extname]''
   \<and> entryFileNames = ''assets/js/[name].js''
   \<and> chunkFileNames = ''assets/js/[name].js''"
proof -
  have a: "assetFileNames (Some name) = spec_asset_path name"
    by (simp add: assetFileNames_def spec_asset_path_def test_end_def words_image_regex
        words_css_regex image_extensions_def ends_with_def)
  have b: "extension name = extension other \<longrightarrow>
        assetFileNames (Some name) = assetFileNames (Some other)"
    by (simp only: assetFileNames_extension) simp
  have c: "assetFileNames None = ''assets/[name][extname]''"
    by (simp add: assetFileNames_def test_end_def words_image_regex words_css_regex
        ends_with_def)
  show ?thesis using a b c by (simp add: entryFileNames_def chunkFileNames_def)
qed

theorem assetFileNames_by_extension_witness:
  "extension ''img/photo.jpeg'' = extension ''old.tar.jpeg''
   \<and> assetFileNames (Some ''img/photo.jpeg'') = assetFileNames (Some ''old.tar.jpeg'')
   \<and> assetFileNames (Some ''img/photo.jpeg'') = ''assets/image/[name][extname]''
   \<and> assetFileNames (Some ''main.css'') = ''assets/scss/[name][extname]''
   \<and> assetFileNames (Some ''font.woff2'') = ''assets/[name][extname]''
   \<and> assetFileNames (Some ''PHOTO.PNG'') = ''assets/[name][extname]''"
proof -
  have e: "extension ''img/photo.jpeg'' = extension ''old.tar.jpeg''"
    by (simp add: extension_def)
  have s1: "spec_asset_path ''img/photo.jpeg'' = ''assets/image/[name][extname]''"
    and s2: "spec_asset_path ''main.css'' = ''assets/scss/[name][extname]''"
    and s3: "spec_asset_path ''font.woff2'' = ''assets/[name][extname]''"
    and s4: "spec_asset_path ''PHOTO.PNG'' = ''assets/[name][extname]''"
    by (simp_all add: spec_asset_path_def image_extensions_def ends_with_def)
  note t1 = assetFileNames_by_extension [of "''img/photo.jpeg''" "''old.tar.jpeg''"]
  from t1
  have a1: "assetFileNames (Some ''img/photo.jpeg'') = spec_asset_path ''img/photo.jpeg''"
    by (rule conjunct1)
  from t1 [THEN conjunct2]
  have i1: "extension ''img/photo.jpeg'' = extension ''old.tar.jpeg'' \<longrightarrow>
        assetFileNames (Some ''img/photo.jpeg'') = assetFileNames (Some ''old.tar.jpeg'')"
    by (rule conjunct1)
  from i1 e
  have a2: "assetFileNames (Some ''img/photo.jpeg'') = assetFileNames (Some ''old.tar.jpeg'')"
    by (rule mp)
  from assetFileNames_by_extension [of "''main.css''"]
  have a3: "assetFileNames (Some ''main.css'') = spec_asset_path ''main.css''"
    by (rule conjunct1)
  from assetFileNames_by_extension [of "''font.woff2''"]
  have a4: "assetFileNames (Some ''font.woff2'') = spec_asset_path ''font.woff2''"
    by (rule conjunct1)
  from assetFileNames_by_extension [of "''PHOTO.PNG''"]
  have a5: "assetFileNames (Some ''PHOTO.PNG'') = spec_asset_path ''PHOTO.PNG''"
    by (rule conjunct1)
  show ?thesis
    unfolding a3 a4 a5 s2 s3 s4
    using e a2 a1 [unfolded s1] by (intro conjI) (rule refl | assumption)+
qed


section \<open>Accordion: toggling\<close>













section \<open>LoopSlider: debounced resize\<close>






















lemma resize_burst_example:
  "map (\<lambda>p. (fst p, fst (snd p)))
     (timers (snd (run demo_env (burst [10, 100, 149]) (demo_slider, demo_world))))
     = [(4, 1409)]
   \<and> calls (snd (elapse demo_env 150
        (run demo_env (burst [10, 100, 149]) (demo_slider, demo_world))))
     = [Slider 7 ResizeTimer]"
  by (simp add: run_def burst_def handleResize_def elapse_def runTimer_def resizeTimer_def
      updateDimensions_def getGap_def setTimeout_def clearTimeout_def truthy_handle_def
      demo_slider_def demo_world_def demo_env_def demo_options_def Let_def)


section \<open>LoopSlider: construction and destruction\<close>

text \<open>
  The slider keeps track of what it hands to the browser. Construction on a page that
  holds no callback of the slider yields a tracked state; resize events and animation
  frames keep it tracked; \<open>destroy\<close> on a tracked state leaves the browser without any
  callback of the slider.
\<close>

lemma foldl_loopState:
  assumes "\<And>w x. loopState (f w x) = loopState w"
  shows "loopState (foldl f w xs) = loopState w"
  using assms by (induction xs arbitrary: w) simp_all

lemma dom_loopState [simp]:
  "loopState (snd (createElement w)) = loopState w"
  "loopState (setClassName n c w) = loopState w"
  "loopState (detach n w) = loopState w"
  "loopState (appendChild p n w) = loopState w"
  "loopState (snd (cloneNode n w)) = loopState w"
  "loopState (setStyle n k v w) = loopState w"
  "loopState (clearStyle n k w) = loopState w"
  by (simp_all add: loopState_def createElement_def setClassName_def detach_def
      appendChild_def cloneNode_def setStyle_def clearStyle_def Let_def split: option.splits)

lemma setStyles_loopState [simp]: "loopState (setStyles n kvs w) = loopState w"
  unfolding setStyles_def by (rule foldl_loopState) simp

lemma cloneAll_loopState [simp]: "loopState (snd (cloneAll xs w)) = loopState w"
  by (induction xs arbitrary: w) (simp_all add: Let_def)

lemma cloneSet_loopState [simp]: "loopState (cloneSet wr sl w) = loopState w"
proof -
  have "loopState (foldl (\<lambda>w' clone. appendChild wr clone w') (snd (cloneAll sl w))
          (fst (cloneAll sl w))) = loopState (snd (cloneAll sl w))"
    by (rule foldl_loopState) simp
  then show ?thesis by (simp add: cloneSet_def Let_def)
qed

lemma cloneSets_loopState [simp]: "loopState (((cloneSet wr sl) ^^ n) w) = loopState w"
  by (induction n) simp_all

lemma setupSlider_frame:
  assumes "setupSlider e (s, w) = Inr (s', w')"
  shows "loopState w' = loopState w \<and> self s' = self s \<and> container s' = container s
         \<and> slides s' = slides s \<and> options s' = options s \<and> animation s' = animation s
         \<and> resizeTimeout s' = resizeTimeout s \<and> wrapper s' = Some (nodeNext w)"
proof -
  let ?wr = "fst (createElement w)"
  let ?s1 = "s\<lparr>wrapper := Some ?wr\<rparr>"
  let ?w2 = "foldl (\<lambda>w' slide. appendChild ?wr slide w')
               (setClassName ?wr ''c-loop-slider__wrapper'' (snd (createElement w))) (slides ?s1)"
  let ?w5 = "setStyles ?wr (wrapperStyle (options ?s1))
               (appendChild (container ?s1) ?wr (((cloneSet ?wr (slides ?s1)) ^^ 3) ?w2))"
  let ?w6 = "foldl (\<lambda>w' slide. setStyles slide slideStyle w') ?w5 (kids ?w5 ?wr)"
  have "loopState ?w2
          = loopState (setClassName ?wr ''c-loop-slider__wrapper'' (snd (createElement w)))"
    by (rule foldl_loopState) simp
  also have "\<dots> = loopState w" by simp
  finally have w2: "loopState ?w2 = loopState w" .
  have w5: "loopState ?w5 = loopState ?w2" by simp
  have "loopState ?w6 = loopState ?w5"
    by (rule foldl_loopState) simp
  then have w6: "loopState ?w6 = loopState w" by (simp only: w5 w2)
  from assms obtain s2 where
    u: "updateDimensions e ?s1 = Inr s2" and r: "s' = s2" "w' = ?w6"
    by (auto simp: setupSlider_def Let_def split: sum.splits)
  have "self s2 = self s \<and> container s2 = container s \<and> slides s2 = slides s
        \<and> options s2 = options s \<and> animation s2 = animation s
        \<and> resizeTimeout s2 = resizeTimeout s \<and> wrapper s2 = Some ?wr"
    using u
    by (auto simp: updateDimensions_def Let_def split: sum.splits list.splits if_splits)
  then show ?thesis using r w6 by (simp add: createElement_def Let_def)
qed

lemma sliderFree_loopState:
  assumes "loopState w' = loopState w"
  shows "sliderFree me w' = sliderFree me w"
  using assms by (simp add: loopState_def sliderFree_def)

lemma filter_empty_list_all:
  "filter P xs = [] \<Longrightarrow> list_all (\<lambda>x. P x \<longrightarrow> Q x) xs"
  by (induction xs) (auto split: if_splits)

lemma addEventListener_frame [simp]:
  "rafQueue (addEventListener tg ty cb cap w) = rafQueue w"
  "timers (addEventListener tg ty cb cap w) = timers w"
  "rafNext (addEventListener tg ty cb cap w) = rafNext w"
  by (simp_all add: addEventListener_def)

lemma addEventListener_all:
  assumes "list_all P (listeners w)" and "P (tg, ty, cb, cap)"
  shows "list_all P (listeners (addEventListener tg ty cb cap w))"
  using assms by (simp add: addEventListener_def)

lemma startAutoScroll_frame:
  "self (fst (startAutoScroll (s, w))) = self s"
  "container (fst (startAutoScroll (s, w))) = container s"
  "slides (fst (startAutoScroll (s, w))) = slides s"
  "options (fst (startAutoScroll (s, w))) = options s"
  "wrapper (fst (startAutoScroll (s, w))) = wrapper s"
  "resizeTimeout (fst (startAutoScroll (s, w))) = resizeTimeout s"
  "totalWidth (fst (startAutoScroll (s, w))) = totalWidth s"
  "baseX (fst (startAutoScroll (s, w))) = - totalWidth s"
  "lastFrameTime (fst (startAutoScroll (s, w))) = None"
  "animation (fst (startAutoScroll (s, w))) = Some (Suc (rafNext w))"
  "rafQueue (snd (startAutoScroll (s, w)))
     = rafQueue w @ [(Suc (rafNext w), Slider (self s) UpdatePosition)]"
  "listeners (snd (startAutoScroll (s, w))) = listeners w"
  "timers (snd (startAutoScroll (s, w))) = timers w"
  by (simp_all add: startAutoScroll_def requestAnimationFrame_def Let_def)

lemma setupDraggable_frame:
  "fst (setupDraggable sw) = fst sw"
  "rafQueue (snd (setupDraggable sw)) = rafQueue (snd sw)"
  "timers (snd (setupDraggable sw)) = timers (snd sw)"
  by (simp_all add: setupDraggable_def Let_def setStyle_def clearStyle_def)

lemma setupDraggable_listeners:
  assumes "list_all (\<lambda>l. sliderOwned (self (fst sw)) (fst (snd (snd l)))
                           \<longrightarrow> l \<in> set (registered (fst sw))) (listeners (snd sw))"
  shows "list_all (\<lambda>l. sliderOwned (self (fst sw)) (fst (snd (snd l)))
                           \<longrightarrow> l \<in> set (registered (fst sw)))
           (listeners (snd (setupDraggable sw)))"
proof (cases "draggable (options (fst sw))")
  case False
  with assms show ?thesis by (simp add: setupDraggable_def Let_def clearStyle_def)
next
  case True
  have "list_all (\<lambda>l. sliderOwned (self (fst sw)) (fst (snd (snd l)))
                           \<longrightarrow> l \<in> set (registered (fst sw)))
          (listeners (setStyle (container (fst sw)) ''cursor'' (CssStr ''grab'') (snd sw)))"
    using assms by (simp add: setStyle_def)
  then show ?thesis
    using True
    by (simp add: setupDraggable_def Let_def)
       (intro addEventListener_all; simp add: registered_def)
qed

lemma setupResize_frame:
  "fst (setupResize sw) = fst sw"
  "rafQueue (snd (setupResize sw)) = rafQueue (snd sw)"
  "timers (snd (setupResize sw)) = timers (snd sw)"
  by (simp_all add: setupResize_def)

lemma setupResize_listeners:
  assumes "list_all (\<lambda>l. sliderOwned (self (fst sw)) (fst (snd (snd l)))
                           \<longrightarrow> l \<in> set (registered (fst sw))) (listeners (snd sw))"
  shows "list_all (\<lambda>l. sliderOwned (self (fst sw)) (fst (snd (snd l)))
                           \<longrightarrow> l \<in> set (registered (fst sw)))
           (listeners (snd (setupResize sw)))"
  using assms
  by (simp add: setupResize_def) (intro addEventListener_all; simp add: registered_def)

lemma registered_cong:
  "self s' = self s \<Longrightarrow> container s' = container s \<Longrightarrow> registered s' = registered s"
  by (simp add: registered_def)

lemma LoopSlider_init_tracked:
  assumes free: "sliderFree (self s) w" and i: "LoopSlider_init e (s, w) = Inr (s', w')"
  shows "tracked (s', w') \<and> self s' = self s \<and> wrapper s' \<noteq> None \<and> slides s' = slides s
         \<and> baseX s' = - totalWidth s' \<and> lastFrameTime s' = None \<and> timers w' = timers w
         \<and> (Window, ''resize'', Slider (self s) HandleResize, False) \<in> set (listeners w')
         \<and> (Suc (rafNext w), Slider (self s) UpdatePosition) \<in> set (rafQueue w')"
proof -
  from i obtain s1 w1 where
    su: "setupSlider e (s, w) = Inr (s1, w1)"
    and r: "(s', w') = setupResize (setupDraggable (startAutoScroll (s1, w1)))"
    by (auto simp: LoopSlider_init_def split: sum.splits)
  from setupSlider_frame [OF su] have
    f1: "loopState w1 = loopState w" "self s1 = self s" "container s1 = container s"
        "slides s1 = slides s" "wrapper s1 = Some (nodeNext w)"
        "resizeTimeout s1 = resizeTimeout s"
    by simp_all
  have free1: "sliderFree (self s) w1"
    using free sliderFree_loopState [OF f1(1)] by simp
  let ?a = "startAutoScroll (s1, w1)"
  let ?d = "setupDraggable ?a"
  have s'eq: "s' = fst ?a" and w'eq: "w' = snd (setupResize ?d)"
    using r by (simp_all add: setupResize_frame setupDraggable_frame prod_eq_iff)
  have self': "self s' = self s" using s'eq f1 by (simp add: startAutoScroll_frame)
  have reg: "registered s' = registered (fst ?a)" using s'eq by simp
  have la: "list_all (\<lambda>l. sliderOwned (self (fst ?a)) (fst (snd (snd l)))
                           \<longrightarrow> l \<in> set (registered (fst ?a))) (listeners (snd ?a))"
    using free1 f1
    by (intro filter_empty_list_all) (simp add: startAutoScroll_frame sliderFree_def)
  from setupDraggable_listeners [OF la]
  have ld: "list_all (\<lambda>l. sliderOwned (self (fst ?d)) (fst (snd (snd l)))
                           \<longrightarrow> l \<in> set (registered (fst ?d))) (listeners (snd ?d))"
    by (simp add: setupDraggable_frame)
  from setupResize_listeners [OF ld]
  have l': "list_all (\<lambda>l. sliderOwned (self s') (fst (snd (snd l)))
                           \<longrightarrow> l \<in> set (registered s')) (listeners w')"
    by (simp add: setupDraggable_frame s'eq w'eq)
  have rq: "rafQueue w' = rafQueue w1 @ [(Suc (rafNext w1), Slider (self s) UpdatePosition)]"
    using f1 by (simp add: w'eq setupResize_frame setupDraggable_frame startAutoScroll_frame)
  have "list_all (\<lambda>p. sliderOwned (self s) (snd p)
                     \<longrightarrow> animation s' = Some (fst p) \<and> fst p \<noteq> 0) (rafQueue w1)"
    using free1 by (intro filter_empty_list_all) (simp add: sliderFree_def)
  then have r': "list_all (\<lambda>p. sliderOwned (self s') (snd p)
                     \<longrightarrow> animation s' = Some (fst p) \<and> fst p \<noteq> 0) (rafQueue w')"
    by (simp add: rq self' s'eq startAutoScroll_frame f1)
  have tq: "timers w' = timers w1"
    by (simp add: w'eq setupResize_frame setupDraggable_frame startAutoScroll_frame)
  have t': "list_all (\<lambda>p. sliderOwned (self s') (snd (snd p))
                     \<longrightarrow> resizeTimeout s' = Some (fst p) \<and> fst p \<noteq> 0) (timers w')"
    using free1 by (intro filter_empty_list_all) (simp add: tq self' sliderFree_def)
  have "tracked (s', w')" using l' r' t' by (simp add: tracked_def)
  moreover have "timers w' = timers w" using tq f1(1) by (simp add: loopState_def)
  moreover have "(Window, ''resize'', Slider (self s) HandleResize, False) \<in> set (listeners w')"
    using f1(2)
    by (simp add: w'eq setupResize_def setupDraggable_frame startAutoScroll_frame
        addEventListener_def)
  moreover have "(Suc (rafNext w), Slider (self s) UpdatePosition) \<in> set (rafQueue w')"
    using rq f1(1) by (simp add: loopState_def)
  ultimately show ?thesis
    using self' f1 by (simp add: s'eq startAutoScroll_frame)
qed

lemma LoopSlider_new_tracked:
  assumes "sliderFree me w" and "LoopSlider_new e me sel opts w = Inr (Live s, w')"
  shows "tracked (s, w') \<and> self s = me \<and> wrapper s \<noteq> None \<and> slides s \<noteq> []
         \<and> baseX s = - totalWidth s \<and> lastFrameTime s = None \<and> timers w' = timers w
         \<and> (Window, ''resize'', Slider me HandleResize, False) \<in> set (listeners w')
         \<and> (Suc (rafNext w), Slider me UpdatePosition) \<in> set (rafQueue w')"
proof -
  from assms(2) obtain c where
    c: "kids w c \<noteq> []"
    and i: "LoopSlider_init e (initialSlider e me c (kids w c) opts, w) = Inr (s, w')"
    by (auto simp: LoopSlider_new_def Let_def split: sum.splits option.splits if_splits)
  have s0: "self (initialSlider e me c (kids w c) opts) = me"
    "slides (initialSlider e me c (kids w c) opts) = kids w c"
    by (simp_all add: initialSlider_def Let_def)
  from LoopSlider_init_tracked [OF _ i] assms(1) s0 c show ?thesis by simp
qed

lemma LoopSlider_new_debounced:
  assumes "sliderFree me w" and "LoopSlider_new e me sel opts w = Inr (Live s, w')"
  shows "debounced (s, w')"
proof -
  from LoopSlider_new_tracked [OF assms] have "self s = me" "timers w' = timers w"
    by simp_all
  moreover from assms(1) have "filter (\<lambda>p. sliderOwned me (snd (snd p))) (timers w) = []"
    by (simp add: sliderFree_def)
  then have "filter (\<lambda>p. snd (snd p) = Slider me ResizeTimer) (timers w) = []"
    by (induction "timers w") (auto simp: sliderOwned_def filter_empty_conv)
  ultimately show ?thesis by (simp add: debounced_def pendingResize_def)
qed

lemma updatePosition_first_frame:
  assumes "\<not> truthy_num (lastFrameTime s)"
  shows "updatePosition e ts (s, w)
           = Inr (s\<lparr>lastFrameTime := Some (frameTimestamp ts w),
                    animation := Some (Suc (rafNext w))\<rparr>,
                  w\<lparr>rafQueue := rafQueue w @ [(Suc (rafNext w), Slider (self s) UpdatePosition)],
                    rafNext := Suc (rafNext w)\<rparr>)"
  using assms by (simp add: updatePosition_def requestAnimationFrame_def Let_def)

lemma filter_empty_iff: "filter P xs = [] \<longleftrightarrow> (\<forall>x\<in>set xs. \<not> P x)"
  by (induction xs) auto

lemma removeEventListener_set:
  "set (listeners (removeEventListener tg ty cb cap w)) = set (listeners w) - {(tg, ty, cb, cap)}"
  by (auto simp: removeEventListener_def)

lemma cancel_listeners:
  "listeners (if b then cancelAnimationFrame h w else w) = listeners w"
  "listeners (if b then clearTimeout h w else w) = listeners w"
  by (simp_all add: cancelAnimationFrame_def clearTimeout_def)

lemma destroy_live_listeners:
  assumes "l \<in> set (listeners (destroy_live (s, w)))"
  shows "l \<in> set (listeners w) \<and> l \<notin> set (registered s)"
proof -
  from assms have
    "l \<in> set (listeners w) - {(Window, ''resize'', Slider (self s) HandleResize, False)}
        - {(Elem (container s), ''mousedown'', Slider (self s) OnPointerDown, False)}
        - {(Elem (container s), ''touchstart'', Slider (self s) OnPointerDown, False)}
        - {(Document, ''mousemove'', Slider (self s) OnPointerMove, False)}
        - {(Document, ''touchmove'', Slider (self s) OnPointerMove, False)}
        - {(Document, ''mouseup'', Slider (self s) OnPointerUp, False)}
        - {(Document, ''touchend'', Slider (self s) OnPointerUp, False)}"
    by (simp only: destroy_live_def Let_def fst_conv snd_conv removeEventListener_set
        cancel_listeners)
  then show ?thesis
    by (simp only: registered_def list.set Diff_iff insert_iff empty_iff) blast
qed

lemma removeEventListener_frame:
  "rafQueue (removeEventListener tg ty cb cap w) = rafQueue w"
  "timers (removeEventListener tg ty cb cap w) = timers w"
  by (simp_all add: removeEventListener_def)

lemma clearTimeout_rafQueue:
  "rafQueue (if b then clearTimeout h w else w) = rafQueue w"
  by (simp add: clearTimeout_def)

lemma cancelAnimationFrame_timers:
  "timers (if b then cancelAnimationFrame h w else w) = timers w"
  by (simp add: cancelAnimationFrame_def)

lemma destroy_live_rafQueue:
  "rafQueue (destroy_live (s, w))
     = (if truthy_handle (animation s)
        then filter (\<lambda>p. fst p \<noteq> the (animation s)) (rafQueue w) else rafQueue w)"
proof -
  have "rafQueue (destroy_live (s, w))
        = rafQueue (if truthy_handle (animation s)
                    then cancelAnimationFrame (the (animation s)) w else w)"
    by (simp only: destroy_live_def Let_def fst_conv snd_conv removeEventListener_frame
        clearTimeout_rafQueue)
  then show ?thesis by (simp add: cancelAnimationFrame_def)
qed

lemma destroy_live_timers:
  "timers (destroy_live (s, w))
     = (if truthy_handle (resizeTimeout s)
        then filter (\<lambda>p. fst p \<noteq> the (resizeTimeout s)) (timers w) else timers w)"
proof -
  have "timers (destroy_live (s, w))
        = timers (if truthy_handle (resizeTimeout s)
                  then clearTimeout (the (resizeTimeout s))
                         (if truthy_handle (animation s)
                          then cancelAnimationFrame (the (animation s)) w else w)
                  else (if truthy_handle (animation s)
                        then cancelAnimationFrame (the (animation s)) w else w))"
    by (simp only: destroy_live_def Let_def fst_conv snd_conv removeEventListener_frame)
  then show ?thesis by (simp add: clearTimeout_def cancelAnimationFrame_def)
qed

lemma destroy_live_releases:
  assumes "tracked (s, w)"
  shows "sliderFree (self s) (destroy_live (s, w))"
proof -
  from assms have
    l: "\<forall>l\<in>set (listeners w). sliderOwned (self s) (fst (snd (snd l)))
           \<longrightarrow> l \<in> set (registered s)"
    and r: "\<forall>p\<in>set (rafQueue w). sliderOwned (self s) (snd p)
           \<longrightarrow> animation s = Some (fst p) \<and> fst p \<noteq> 0"
    and t: "\<forall>p\<in>set (timers w). sliderOwned (self s) (snd (snd p))
           \<longrightarrow> resizeTimeout s = Some (fst p) \<and> fst p \<noteq> 0"
    by (simp_all add: tracked_def list_all_iff)
  have a: "filter (\<lambda>l. sliderOwned (self s) (fst (snd (snd l))))
             (listeners (destroy_live (s, w))) = []"
    unfolding filter_empty_iff using l destroy_live_listeners by blast
  have b: "filter (\<lambda>p. sliderOwned (self s) (snd p)) (rafQueue (destroy_live (s, w))) = []"
    unfolding filter_empty_iff destroy_live_rafQueue using r
    by (auto simp: truthy_handle_def)
  have c: "filter (\<lambda>p. sliderOwned (self s) (snd (snd p))) (timers (destroy_live (s, w))) = []"
    unfolding filter_empty_iff destroy_live_timers using t
    by (auto simp: truthy_handle_def)
  show ?thesis using a b c by (simp add: sliderFree_def)
qed

lemma handleResize_tracked:
  assumes "tracked sw"
  shows "tracked (handleResize sw)"
proof -
  obtain s w where sw: "sw = (s, w)" by (cases sw)
  from assms have
    t: "\<forall>p\<in>set (timers w). sliderOwned (self s) (snd (snd p))
           \<longrightarrow> resizeTimeout s = Some (fst p) \<and> fst p \<noteq> 0"
    by (simp add: tracked_def list_all_iff sw)
  let ?w1 = "if truthy_handle (resizeTimeout s)
             then clearTimeout (the (resizeTimeout s)) w else w"
  have none: "\<forall>p\<in>set (timers ?w1). \<not> sliderOwned (self s) (snd (snd p))"
    using t by (auto simp: clearTimeout_def truthy_handle_def)
  have "list_all (\<lambda>p. sliderOwned (self s) (snd (snd p))
                     \<longrightarrow> Some (Suc (timerNext ?w1)) = Some (fst p) \<and> fst p \<noteq> 0)
          (timers ?w1 @ [(Suc (timerNext ?w1), clock ?w1 + 150, Slider (self s) ResizeTimer)])"
    using none by (simp add: list_all_iff)
  moreover have "listeners ?w1 = listeners w" "rafQueue ?w1 = rafQueue w"
    by (simp_all add: clearTimeout_def)
  ultimately show ?thesis
    using assms
    by (simp add: tracked_def sw handleResize_def setTimeout_def Let_def registered_def)
qed

lemma moveStep_fields [simp]:
  "container (moveStep e t s) = container s"
  "resizeTimeout (moveStep e t s) = resizeTimeout s"
  by (simp_all add: moveStep_def scrollStep_def autoStep_def inertiaStep_def Let_def)

lemma loopCorrect_fields:
  assumes "loopCorrect s = Inr s'"
  shows "self s' = self s \<and> container s' = container s \<and> wrapper s' = wrapper s
         \<and> resizeTimeout s' = resizeTimeout s"
  using assms by (auto simp: loopCorrect_def Let_def split: if_splits)

lemma updatePosition_frame:
  assumes up: "updatePosition e ts (s, w) = Inr (s', w')"
  shows "self s' = self s \<and> container s' = container s \<and> resizeTimeout s' = resizeTimeout s
        \<and> animation s' = Some (Suc (rafNext w))
        \<and> listeners w' = listeners w \<and> timers w' = timers w
        \<and> rafQueue w' = rafQueue w @ [(Suc (rafNext w), Slider (self s) UpdatePosition)]"
proof (cases "truthy_num (lastFrameTime s)")
  case False
  with up show ?thesis
    by (auto simp: updatePosition_def requestAnimationFrame_def Let_def)
next
  case True
  with up obtain s4 where
    lc: "loopCorrect (moveStep e (frameTimestamp ts w) s) = Inr s4"
    and re: "render (s4, w) = Inr (s', w')"
    by (auto simp: updatePosition_def Let_def split: sum.splits)
  from loopCorrect_fields [OF lc] re show ?thesis
    by (auto simp: render_def requestAnimationFrame_def setStyle_def Let_def
        split: option.splits)
qed

lemma updatePosition_tracked:
  assumes tr: "tracked (s, w)"
      and dq: "filter (\<lambda>p. sliderOwned (self s) (snd p)) (rafQueue w) = []"
      and up: "updatePosition e ts (s, w) = Inr (s', w')"
  shows "tracked (s', w')
         \<and> filter (\<lambda>p. sliderOwned (self s) (snd p)) (rafQueue w')
             = [(Suc (rafNext w), Slider (self s) UpdatePosition)]"
proof -
  from updatePosition_frame [OF up]
  have f: "self s' = self s" "container s' = container s"
    "resizeTimeout s' = resizeTimeout s" "animation s' = Some (Suc (rafNext w))"
    "listeners w' = listeners w" "timers w' = timers w"
    "rafQueue w' = rafQueue w @ [(Suc (rafNext w), Slider (self s) UpdatePosition)]"
    by simp_all
  have none: "\<forall>p\<in>set (rafQueue w). \<not> sliderOwned (self s) (snd p)"
    using dq by (simp add: filter_empty_iff)
  have "tracked (s', w')"
    using tr none f by (simp add: tracked_def registered_def list_all_iff sliderOwned_def)
  moreover have "filter (\<lambda>p. sliderOwned (self s) (snd p)) (rafQueue w')
             = [(Suc (rafNext w), Slider (self s) UpdatePosition)]"
    using dq f by (simp add: sliderOwned_def)
  ultimately show ?thesis by simp
qed

lemma updatePosition_debounced:
  assumes "debounced (s, w)" and "updatePosition e ts (s, w) = Inr (s', w')"
  shows "debounced (s', w')"
  using assms(1) updatePosition_frame [OF assms(2)]
  by (simp add: debounced_def pendingResize_def)

lemma LoopSlider_destroy_after_new:
  assumes "sliderFree me w" and "LoopSlider_new e me sel opts w = Inr (ls, w')"
  shows "\<exists>w''. LoopSlider_destroy ls w' = Inr w'' \<and> sliderFree me w''
         \<or> ls = NoContainer \<and> w' = w"
proof (cases ls)
  case NoContainer
  with assms(2) have "w' = w"
    by (auto simp: LoopSlider_new_def Let_def split: sum.splits option.splits if_splits)
  with NoContainer show ?thesis by simp
next
  case (NoSlides c)
  with assms(2) have "w' = w"
    by (auto simp: LoopSlider_new_def Let_def split: sum.splits option.splits if_splits)
  with NoSlides assms(1) show ?thesis by (simp add: LoopSlider_destroy_def)
next
  case (Live s)
  with assms have "tracked (s, w')" "self s = me"
    using LoopSlider_new_tracked by blast+
  with destroy_live_releases [of s w'] Live show ?thesis
    by (simp add: LoopSlider_destroy_def)
qed

section \<open>Initialisers without their elements\<close>



text \<open>
  With their elements present the same initialisers do change the world: the accordion
  registers a click listener per item, the progress animation creates a scroll trigger
  for the container and one per item. (For LoopSlider and MouseStalker see
  \<open>LoopSlider_new_tracked\<close> and \<open>MouseStalker_new_active\<close>.)
\<close>

lemma Accordion_new_example:
  "map_sum id (\<lambda>r. (listeners (snd r), console (snd r)))
     (Accordion_new acc_env 1 ''.js-accordion'' no_accordion_options demo_world)
   = Inr ([(Elem 31, ''click'', AccordionClick 1 10 11 [11, 12, 13], False),
           (Elem 32, ''click'', AccordionClick 1 10 12 [11, 12, 13], False),
           (Elem 33, ''click'', AccordionClick 1 10 13 [11, 12, 13], False)], [])"
  by (simp add: Accordion_new_def Accordion_init_def mergeAccordionOptions_def pick_def
      no_accordion_options_def querySelector_def addEventListener_def acc_env_def
      demo_env_def demo_world_def Let_def)

lemma ScrollProgressAnimation_init_example:
  "map_sum id (\<lambda>p. (scrollTriggers (fst (ScrollProgressAnimation_init (p, demo_world))),
                     map (\<lambda>t. trigger_elem (snd t))
                       (triggers (snd (ScrollProgressAnimation_init (p, demo_world))))))
     (ScrollProgressAnimation_new progress_env 3 no_progress_options)
   = Inr ([1, 2, 3], [Some 40, Some 42, Some 43])"
  by (simp add: ScrollProgressAnimation_new_def ScrollProgressAnimation_init_def isValid_def
      animateProgress_def animateItems_def animateItem_def ScrollTrigger_create_def
      mergeProgressConfig_def pick_def no_progress_options_def querySelector_def
      progress_env_def demo_env_def demo_world_def Let_def)


section \<open>MouseStalker: construction and destruction\<close>

lemma setStyles_frame [simp]:
  "timers (setStyles n kvs w) = timers w"
  "timerNext (setStyles n kvs w) = timerNext w"
  "clock (setStyles n kvs w) = clock w"
  "rafQueue (setStyles n kvs w) = rafQueue w"
  "listeners (setStyles n kvs w) = listeners w"
  unfolding setStyles_def
  by (induction kvs arbitrary: w) (simp_all add: setStyle_def)

lemma cancelTextTimer_frame:
  "ms_self (fst (cancelTextTimer sw)) = ms_self (fst sw)"
  "config (fst (cancelTextTimer sw)) = config (fst sw)"
  "ms_container (fst (cancelTextTimer sw)) = ms_container (fst sw)"
  "textEl (fst (cancelTextTimer sw)) = textEl (fst sw)"
  "isVisible (fst (cancelTextTimer sw)) = isVisible (fst sw)"
  "activeTarget (fst (cancelTextTimer sw)) = activeTarget (fst sw)"
  "currentText (fst (cancelTextTimer sw)) = currentText (fst sw)"
  "clock (snd (cancelTextTimer sw)) = clock (snd sw)"
  "timerNext (snd (cancelTextTimer sw)) = timerNext (snd sw)"
  "\<not> truthy_handle (textTimer (fst (cancelTextTimer sw)))"
  by (simp_all add: cancelTextTimer_def clearTimeout_def truthy_handle_def)

lemma clearText_total:
  assumes "textEl st = Some t"
  shows "\<exists>st' w'. clearText (st, w) = Inr (st', w')
           \<and> ms_self st' = ms_self st \<and> config st' = config st
           \<and> ms_container st' = ms_container st \<and> textEl st' = textEl st
           \<and> isVisible st' = isVisible st \<and> activeTarget st' = activeTarget st
           \<and> clock w' = clock w
           \<and> (\<not> truthy_handle (textTimer st') \<and> timerNext w' = timerNext w
               \<or> textTimer st' = Some (Suc (timerNext w)) \<and> timerNext w' = Suc (timerNext w))"
proof -
  obtain stc wc where cc: "cancelTextTimer (st, w) = (stc, wc)"
    by (cases "cancelTextTimer (st, w)")
  have f: "ms_self stc = ms_self st" "config stc = config st"
    "ms_container stc = ms_container st" "textEl stc = textEl st"
    "isVisible stc = isVisible st" "activeTarget stc = activeTarget st"
    "currentText stc = currentText st" "clock wc = clock w" "timerNext wc = timerNext w"
    "\<not> truthy_handle (textTimer stc)"
    using cancelTextTimer_frame [of "(st, w)"] by (simp_all add: cc)
  show ?thesis
    using assms f
    by (auto simp: clearText_def cc Let_def setTimeout_def setStyle_def)
qed

lemma setText_total:
  assumes "textEl st = Some t" and "ms_container st = Some c"
  shows "\<exists>st' w'. setText text (st, w) = Inr (st', w')
           \<and> ms_self st' = ms_self st \<and> config st' = config st
           \<and> ms_container st' = ms_container st \<and> textEl st' = textEl st
           \<and> isVisible st' = isVisible st \<and> activeTarget st' = activeTarget st
           \<and> clock w' = clock w
           \<and> (\<not> truthy_handle (textTimer st') \<and> timerNext w' = timerNext w
               \<or> textTimer st' = Some (Suc (timerNext w)) \<and> timerNext w' = Suc (timerNext w))"
proof -
  obtain stc wc where cc: "cancelTextTimer (st, w) = (stc, wc)"
    by (cases "cancelTextTimer (st, w)")
  have f: "ms_self stc = ms_self st" "config stc = config st"
    "ms_container stc = ms_container st" "textEl stc = textEl st"
    "isVisible stc = isVisible st" "activeTarget stc = activeTarget st"
    "currentText stc = currentText st" "clock wc = clock w" "timerNext wc = timerNext w"
    "\<not> truthy_handle (textTimer stc)"
    using cancelTextTimer_frame [of "(st, w)"] by (simp_all add: cc)
  show ?thesis
    using assms f
    by (auto simp: setText_def cc Let_def setTimeout_def setStyle_def classList_add_def)
qed

lemma clearMouseStalker_schedules:
  assumes av: "\<not> alwaysVisible (config st)"
      and c: "ms_container st = Some c" and t: "textEl st = Some t"
  shows "\<exists>st' w' h. clearMouseStalker (st, w) = Inr (st', w')
           \<and> (h, clock w + 300, Stalker (ms_self st) HoverTimer) \<in> set (timers w')
           \<and> textTimer st' \<noteq> Some h
           \<and> \<not> isVisible st' \<and> activeTarget st' = None
           \<and> ms_self st' = ms_self st \<and> ms_container st' = Some c"
proof -
  let ?st0 = "st\<lparr>activeTarget := None\<rparr>"
  from clearText_total [of ?st0 t w] t obtain st1 w1 where
    ct: "clearText (?st0, w) = Inr (st1, w1)"
        "ms_self st1 = ms_self st" "config st1 = config st"
        "ms_container st1 = ms_container st" "activeTarget st1 = None" "clock w1 = clock w"
        "\<not> truthy_handle (textTimer st1) \<and> timerNext w1 = timerNext w
               \<or> textTimer st1 = Some (Suc (timerNext w)) \<and> timerNext w1 = Suc (timerNext w)"
    by auto
  let ?h = "Suc (timerNext w1)"
  let ?w2 = "snd (setTimeout (Stalker (ms_self st1) HoverTimer) 300 (setStyles c hideStyle w1))"
  have r: "clearMouseStalker (st, w) = Inr (st1\<lparr>isVisible := False\<rparr>, ?w2)"
    using av c ct by (simp add: clearMouseStalker_def Let_def)
  have m: "(?h, clock w + 300, Stalker (ms_self st) HoverTimer) \<in> set (timers ?w2)"
    using ct by (simp add: setTimeout_def Let_def)
  have n: "textTimer (st1\<lparr>isVisible := False\<rparr>) \<noteq> Some ?h"
    using ct(7) by (auto simp: truthy_handle_def)
  show ?thesis using r m n ct c by auto
qed

lemma handlePointerOut_schedules:
  assumes "activeTarget st = Some tg"
      and "relatedTarget ev = None \<or> (\<exists>r. relatedTarget ev = Some r \<and> \<not> contains e tg r)"
      and "\<not> alwaysVisible (config st)"
      and "ms_container st = Some c" and "textEl st = Some t"
  shows "\<exists>st' w' h. handlePointerOut e ev (st, w) = Inr (st', w')
           \<and> (h, clock w + 300, Stalker (ms_self st) HoverTimer) \<in> set (timers w')
           \<and> textTimer st' \<noteq> Some h
           \<and> \<not> isVisible st' \<and> activeTarget st' = None
           \<and> ms_self st' = ms_self st \<and> ms_container st' = Some c"
proof -
  have "handlePointerOut e ev (st, w) = clearMouseStalker (st, w)"
    using assms(1,2) by (auto simp: handlePointerOut_def)
  with clearMouseStalker_schedules [OF assms(3,4,5), of w] show ?thesis by simp
qed

lemma unbindEvents_frame [simp]:
  "timers (unbindEvents st w) = timers w"
  "rafQueue (unbindEvents st w) = rafQueue w"
  by (simp_all add: unbindEvents_def removeEventListener_def)

lemma removeFromParent_frame [simp]:
  "timers (removeFromParent c w) = timers w"
  "rafQueue (removeFromParent c w) = rafQueue w"
  "listeners (removeFromParent c w) = listeners w"
  by (simp_all add: removeFromParent_def detach_def split: option.splits)

lemma MouseStalker_destroy_timers:
  "timers (snd (MouseStalker_destroy (st, w)))
     = (if truthy_handle (textTimer st)
        then filter (\<lambda>p. fst p \<noteq> the (textTimer st)) (timers w) else timers w)"
  by (simp add: MouseStalker_destroy_def Let_def clearTimeout_def cancelAnimationFrame_def)

lemma MouseStalker_destroy_fields:
  "ms_container (fst (MouseStalker_destroy sw)) = None"
  "textEl (fst (MouseStalker_destroy sw)) = None"
  "\<not> isEnabled (fst (MouseStalker_destroy sw))"
  "isVisible (fst (MouseStalker_destroy sw)) = isVisible (fst sw)"
  "activeTarget (fst (MouseStalker_destroy sw)) = activeTarget (fst sw)"
  "ms_self (fst (MouseStalker_destroy sw)) = ms_self (fst sw)"
  by (simp_all add: MouseStalker_destroy_def Let_def)

lemma MouseStalker_destroy_keeps:
  assumes "(h, t, cb) \<in> set (timers w)" and "textTimer st \<noteq> Some h"
  shows "(h, t, cb) \<in> set (timers (snd (MouseStalker_destroy (st, w))))"
  using assms
  by (cases "textTimer st") (auto simp: MouseStalker_destroy_timers truthy_handle_def)

lemma hoverTimer_after_destroy:
  assumes "\<not> isVisible st" and "activeTarget st = None" and "ms_container st = None"
  shows "hoverTimer (st, w) = Inl TypeError"
  using assms by (simp add: hoverTimer_def)

lemma createStalker_fields:
  assumes "body e = Some b"
  shows "\<exists>st' w'. createStalker e (st, w) = Inr (st', w')
           \<and> ms_self st' = ms_self st \<and> config st' = config st
           \<and> ms_container st' \<noteq> None \<and> textEl st' \<noteq> None
           \<and> activeTarget st' = activeTarget st \<and> isVisible st' = isVisible st"
  using assms by (simp add: createStalker_def Let_def)

lemma MouseStalker_new_active:
  assumes "windowDefined e" and "documentDefined e" and "\<not> reducedMotion e"
      and "pointerFine e" and "body e = Some b"
  shows "\<exists>st w'. MouseStalker_new e me opts w = Inr (Active st, w')
           \<and> ms_self st = me \<and> config st = mergeStalkerConfig opts
           \<and> ms_container st \<noteq> None \<and> textEl st \<noteq> None
           \<and> activeTarget st = None \<and> \<not> isVisible st"
proof -
  let ?st = "\<lparr>ms_self = me, config = mergeStalkerConfig opts,
                          prefersReducedMotion = reducedMotion e,
                          ms_pointerFine = pointerFine e, isEnabled = False,
                          ms_container = None, textEl = None, activeTarget = None,
                          currentText = [],
                          pos = (innerWidth e / 2, innerHeight e / 2),
                          target = (innerWidth e / 2, innerHeight e / 2),
                          isVisible = False, rafId = None, isMoving = False,
                          textTimer = None\<rparr>"
  from createStalker_fields [OF assms(5), of ?st w] obtain st1 w1 where
    c: "createStalker e (?st, w) = Inr (st1, w1)" "ms_self st1 = me"
       "config st1 = mergeStalkerConfig opts" "ms_container st1 \<noteq> None" "textEl st1 \<noteq> None"
       "activeTarget st1 = None" "\<not> isVisible st1"
    by auto
  show ?thesis
    using assms(1-4) c
    by (simp add: MouseStalker_new_def MouseStalker_init_def render_stalker_def Let_def)
qed

lemma handlePointerOver_enters:
  assumes "closest ev (selector (config st)) = Some (Some tg)"
      and "activeTarget st \<noteq> Some tg"
      and "ms_container st = Some c" and "textEl st = Some t"
  shows "\<exists>st' w'. handlePointerOver e ev (st, w) = Inr (st', w')
           \<and> activeTarget st' = Some tg \<and> ms_container st' = Some c \<and> textEl st' = Some t
           \<and> config st' = config st \<and> ms_self st' = ms_self st"
proof (cases "isVisible st")
  case True
  let ?st1 = "st\<lparr>activeTarget := Some tg\<rparr>"
  let ?text = "if datasetMouseStalker e tg \<noteq> [] then datasetMouseStalker e tg
               else defaultText (config ?st1)"
  have "textEl ?st1 = Some t" "ms_container ?st1 = Some c" using assms(3,4) by simp_all
  from setText_total [OF this, of ?text "classList_add c ''is-hover'' w"]
  obtain st' w' where
    s: "setText ?text (?st1, classList_add c ''is-hover'' w) = Inr (st', w')"
       "ms_self st' = ms_self st" "config st' = config st"
       "ms_container st' = Some c" "textEl st' = Some t" "activeTarget st' = Some tg"
    using assms(3,4) by auto
  have "handlePointerOver e ev (st, w) = Inr (st', w')"
    using assms True s(1) by (simp add: handlePointerOver_def Let_def)
  with s show ?thesis by blast
next
  case False
  show ?thesis
    using assms False
    by (simp add: handlePointerOver_def Let_def cancelTextTimer_frame)
qed

text \<open>
  The defect behind claim C5. Whenever the pointer leaves the active target of a stalker
  that is not always visible, \<open>clearMouseStalker\<close> schedules \<open>hoverTimer\<close> without keeping
  the handle. \<open>destroy\<close> clears \<open>textTimer\<close> only: the timeout stays pending, and when it
  fires it reads \<open>this.container.classList\<close> of the container that \<open>destroy\<close> set to
  \<open>null\<close>.
\<close>

lemma hover_timer_survives_destroy:
  assumes "activeTarget st = Some tg"
      and "relatedTarget ev = None \<or> (\<exists>r. relatedTarget ev = Some r \<and> \<not> contains e tg r)"
      and "\<not> alwaysVisible (config st)"
      and "ms_container st = Some c" and "textEl st = Some t"
  shows "\<exists>sw h. handlePointerOut e ev (st, w) = Inr sw
           \<and> (h, clock w + 300, Stalker (ms_self st) HoverTimer)
                \<in> set (timers (snd (MouseStalker_destroy sw)))
           \<and> hoverTimer (MouseStalker_destroy sw) = Inl TypeError"
proof -
  from handlePointerOut_schedules [OF assms, of w] obtain st' w' h where
    o: "handlePointerOut e ev (st, w) = Inr (st', w')"
       "(h, clock w + 300, Stalker (ms_self st) HoverTimer) \<in> set (timers w')"
       "textTimer st' \<noteq> Some h" "\<not> isVisible st'" "activeTarget st' = None"
    by blast
  have k: "(h, clock w + 300, Stalker (ms_self st) HoverTimer)
             \<in> set (timers (snd (MouseStalker_destroy (st', w'))))"
    using o(2,3) by (rule MouseStalker_destroy_keeps)
  have "hoverTimer (fst (MouseStalker_destroy (st', w')), snd (MouseStalker_destroy (st', w')))
          = Inl TypeError"
    using o(4,5) by (intro hoverTimer_after_destroy) (simp_all add: MouseStalker_destroy_fields)
  with o(1) k show ?thesis by auto
qed

text \<open>
  Claim C5 is broken by MouseStalker on the session \<open>hover_then_destroy\<close>: after
  \<open>destroy()\<close> the timeout \<open>HoverTimer\<close> of the instance is still pending, the container
  is \<open>null\<close>, and the callback of the timeout throws a \<open>TypeError\<close>.
\<close>

theorem destroy_misses_hover_timer:
  "\<not> isl hover_then_destroy
   \<and> Stalker 9 HoverTimer \<in> set (timerCallbacks (snd (projr hover_then_destroy)))
   \<and> ms_container (fst (projr hover_then_destroy)) = None
   \<and> hoverTimer (projr hover_then_destroy) = Inl TypeError"
proof -
  have env: "windowDefined stalker_env" "documentDefined stalker_env"
    "\<not> reducedMotion stalker_env" "pointerFine stalker_env" "body stalker_env = Some 0"
    by (simp_all add: stalker_env_def demo_env_def)
  from MouseStalker_new_active [OF env, of 9 no_stalker_options demo_world]
  obtain st1 w1 c t where
    new: "MouseStalker_new stalker_env 9 no_stalker_options demo_world = Inr (Active st1, w1)"
      and f1: "ms_self st1 = 9" "config st1 = mergeStalkerConfig no_stalker_options"
         "ms_container st1 = Some c" "textEl st1 = Some t" "activeTarget st1 = None"
    by auto
  have cfg: "selector (config st1) = ''[data-mouse-stalker]''" "\<not> alwaysVisible (config st1)"
    by (simp_all add: f1 mergeStalkerConfig_def no_stalker_options_def pick_def)
  have "closest over_link (selector (config st1)) = Some (Some 2)"
    by (simp add: cfg over_link_def)
  from handlePointerOver_enters [OF this _ f1(3,4), of stalker_env w1]
  obtain st2 w2 where
    over: "handlePointerOver stalker_env over_link (st1, w1) = Inr (st2, w2)"
      and f2: "activeTarget st2 = Some 2" "ms_container st2 = Some c" "textEl st2 = Some t"
         "config st2 = config st1" "ms_self st2 = 9"
    using f1 by auto
  have rel: "relatedTarget out_of_link = None
             \<or> (\<exists>r. relatedTarget out_of_link = Some r \<and> \<not> contains stalker_env 2 r)"
    by (simp add: out_of_link_def stalker_env_def demo_env_def)
  have av: "\<not> alwaysVisible (config st2)" using cfg f2 by simp
  from hover_timer_survives_destroy [OF f2(1) rel av f2(2,3), of w2]
  obtain sw3 h where
    out: "handlePointerOut stalker_env out_of_link (st2, w2) = Inr sw3"
      and k: "(h, clock w2 + 300, Stalker 9 HoverTimer)
                \<in> set (timers (snd (MouseStalker_destroy sw3)))"
      and ht: "hoverTimer (MouseStalker_destroy sw3) = Inl TypeError"
    using f2 by auto
  have s: "hover_then_destroy = Inr (MouseStalker_destroy sw3)"
    by (simp add: hover_then_destroy_def andThen_def stalker_of_def new over out)
  have "Stalker 9 HoverTimer \<in> set (timerCallbacks (snd (MouseStalker_destroy sw3)))"
    using k by (force simp: timerCallbacks_def)
  moreover have "ms_container (fst (MouseStalker_destroy sw3)) = None"
    by (rule MouseStalker_destroy_fields)
  ultimately show ?thesis unfolding s using ht by simp
qed


text \<open>
  Claim C10. With \<open>window\<close> or \<open>document\<close> undefined, with reduced motion preferred, or
  without a fine pointer, the constructor of MouseStalker returns an inert instance and
  the world is what it was: no element is created, no listener registered, no frame
  requested.
\<close>

theorem MouseStalker_new_guarded:
  assumes "\<not> windowDefined e \<or> \<not> documentDefined e \<or> reducedMotion e \<or> \<not> pointerFine e"
  shows "MouseStalker_new e me opts w = Inr (Inert (mergeStalkerConfig opts), w)"
  using assms by (auto simp: MouseStalker_new_def Let_def)

theorem MouseStalker_new_guarded_witness:
  "reducedMotion (demo_env\<lparr>reducedMotion := True\<rparr>)
   \<and> MouseStalker_new (demo_env\<lparr>reducedMotion := True\<rparr>) 9 no_stalker_options demo_world
        = Inr (Inert (mergeStalkerConfig no_stalker_options), demo_world)
   \<and> pointerFine (demo_env\<lparr>pointerFine := False\<rparr>) = False
   \<and> MouseStalker_new (demo_env\<lparr>pointerFine := False\<rparr>) 9 no_stalker_options demo_world
        = Inr (Inert (mergeStalkerConfig no_stalker_options), demo_world)
   \<and> windowDefined (demo_env\<lparr>windowDefined := False, documentDefined := False\<rparr>) = False
   \<and> MouseStalker_new (demo_env\<lparr>windowDefined := False, documentDefined := False\<rparr>) 9
        no_stalker_options demo_world
        = Inr (Inert (mergeStalkerConfig no_stalker_options), demo_world)"
proof -
  have h1: "\<not> windowDefined (demo_env\<lparr>reducedMotion := True\<rparr>)
      \<or> \<not> documentDefined (demo_env\<lparr>reducedMotion := True\<rparr>)
      \<or> reducedMotion (demo_env\<lparr>reducedMotion := True\<rparr>)
      \<or> \<not> pointerFine (demo_env\<lparr>reducedMotion := True\<rparr>)" by simp
  have h2: "\<not> windowDefined (demo_env\<lparr>pointerFine := False\<rparr>)
      \<or> \<not> documentDefined (demo_env\<lparr>pointerFine := False\<rparr>)
      \<or> reducedMotion (demo_env\<lparr>pointerFine := False\<rparr>)
      \<or> \<not> pointerFine (demo_env\<lparr>pointerFine := False\<rparr>)" by simp
  have h3: "\<not> windowDefined (demo_env\<lparr>windowDefined := False, documentDefined := False\<rparr>)
      \<or> \<not> documentDefined (demo_env\<lparr>windowDefined := False, documentDefined := False\<rparr>)
      \<or> reducedMotion (demo_env\<lparr>windowDefined := False, documentDefined := False\<rparr>)
      \<or> \<not> pointerFine (demo_env\<lparr>windowDefined := False, documentDefined := False\<rparr>)"
    by simp
  from MouseStalker_new_guarded [OF h1, of 9 no_stalker_options demo_world]
    MouseStalker_new_guarded [OF h2, of 9 no_stalker_options demo_world]
    MouseStalker_new_guarded [OF h3, of 9 no_stalker_options demo_world]
  show ?thesis by simp
qed

end
